theory Spec2Isabelle
  imports Main
begin

section \<open>Python values, strings and exceptions\<close>

text \<open>
  A Python \<open>str\<close> is a sequence of Unicode code points, so it is modelled as a list of
  natural numbers. \<open>py\<close> turns an ASCII literal of the source into such a list.
\<close>

type_synonym pystr = "nat list"

definition py :: "string \<Rightarrow> pystr" where
  "py cs = map of_char cs"

text \<open>
  The exceptions that occur in the program. All of them are subclasses of Python's
  \<open>Exception\<close>. \<open>UnicodeEncodeError c i j\<close> carries the first character that could not
  be encoded and the range \<open>i..<j\<close> of the offending characters. \<open>OtherError c m\<close> is any other
  subclass of \<open>Exception\<close> raised by a library, with its class name and its message.
\<close>

datatype exn =
    FileNotFoundError pystr
  | KeyError pystr
  | UnicodeEncodeError nat nat nat
  | Exception pystr
  | OtherError pystr pystr

fun is_FileNotFoundError :: "exn \<Rightarrow> bool" where
  "is_FileNotFoundError (FileNotFoundError m) = True"
| "is_FileNotFoundError e = False"

text \<open>Decimal and hexadecimal numerals, as \<open>str\<close> and \<open>format\<close> print them.\<close>

fun str_nat :: "nat \<Rightarrow> pystr" where
  "str_nat n = (if n < 10 then [48 + n] else str_nat (n div 10) @ [48 + n mod 10])"

declare str_nat.simps [simp del]

definition str_int :: "int \<Rightarrow> pystr" where
  "str_int i = (if i < 0 then 45 # str_nat (nat (- i)) else str_nat (nat i))"

definition hex_upper :: "nat \<Rightarrow> nat" where
  "hex_upper d = (if d < 10 then 48 + d else 55 + d)"

definition hex_lower :: "nat \<Rightarrow> nat" where
  "hex_lower d = (if d < 10 then 48 + d else 87 + d)"

text \<open>
  \<open>str(e)\<close> for an exception. A \<open>KeyError\<close> prints the \<open>repr\<close> of its key, which for the
  column names of this program is the name between single quotes (code point 39). The text of a
  \<open>UnicodeEncodeError\<close> of the \<open>utf-8\<close> codec names the character (always a surrogate here,
  printed as \<open>\udxxx\<close>) or the range of characters.
\<close>

fun str_exn :: "exn \<Rightarrow> pystr" where
  "str_exn (FileNotFoundError m) = m"
| "str_exn (KeyError k) = [39] @ k @ [39]"
| "str_exn (UnicodeEncodeError c i j) =
     (if j = i + 1
      then [39] @ py ''utf-8'' @ [39] @ py '' codec can't encode character '' @ [39, 92, 117]
           @ map hex_lower [c div 4096 mod 16, c div 256 mod 16, c div 16 mod 16, c mod 16]
           @ [39] @ py '' in position '' @ str_nat i @ py '': surrogates not allowed''
      else [39] @ py ''utf-8'' @ [39] @ py '' codec can't encode characters in position ''
           @ str_nat i @ py ''-'' @ str_nat (j - 1) @ py '': surrogates not allowed'')"
| "str_exn (Exception m) = m"
| "str_exn (OtherError c m) = m"

text \<open>
  The values a cell of the table can hold. \<open>PNaN\<close> is the float that pandas puts in an
  empty cell. \<open>POther t\<close> is a value of any other type (a finite float, a timestamp), given
  by the text \<open>t\<close> that \<open>str\<close> returns for it.
\<close>

datatype pyval = PStr pystr | PInt int | PBool bool | PNone | PNaN | POther pystr

fun str :: "pyval \<Rightarrow> pystr" where
  "str (PStr s) = s"
| "str (PInt i) = str_int i"
| "str (PBool b) = (if b then py ''True'' else py ''False'')"
| "str PNone = py ''None''"
| "str PNaN = py ''nan''"
| "str (POther t) = t"

section \<open>The table: pandas DataFrame and Series\<close>

text \<open>
  A DataFrame has one list of column labels for all of its rows (\<open>read_excel\<close> makes the
  labels unique). \<open>iterrows\<close> yields each row as a Series indexed by the column labels.
  \<open>row[k]\<close> raises \<open>KeyError\<close> when \<open>k\<close> is not a label; a cell that the sheet does not
  fill is \<open>NaN\<close>.
\<close>

record dataframe =
  columns :: "pystr list"
  rows :: "pyval list list"

record series =
  index :: "pystr list"
  vals :: "pyval list"

definition iterrows :: "dataframe \<Rightarrow> series list" where
  "iterrows data = map (\<lambda>vs. \<lparr>index = columns data, vals = vs\<rparr>) (rows data)"

fun lookup :: "pystr \<Rightarrow> pystr list \<Rightarrow> pyval list \<Rightarrow> pyval option" where
  "lookup k [] vs = None"
| "lookup k (c # cs) [] = (if k = c then Some PNaN else lookup k cs [])"
| "lookup k (c # cs) (v # vs) = (if k = c then Some v else lookup k cs vs)"

definition getitem :: "series \<Rightarrow> pystr \<Rightarrow> exn + pyval" where
  "getitem row k = (case lookup k (index row) (vals row) of
                      None \<Rightarrow> Inl (KeyError k)
                    | Some v \<Rightarrow> Inr v)"

section \<open>\<open>urllib.parse.quote\<close>\<close>

text \<open>
  \<open>quote(string, safe)\<close> encodes the string as UTF-8 (strictly: a surrogate code point
  raises \<open>UnicodeEncodeError\<close>) and replaces every byte that is neither a letter, a digit,
  one of \<open>_.-~\<close> nor in \<open>safe\<close> by \<open>%XX\<close>, with upper-case hexadecimal digits.
\<close>

definition is_surrogate :: "nat \<Rightarrow> bool" where
  "is_surrogate c = (55296 \<le> c \<and> c \<le> 57343)"

definition utf8_char :: "nat \<Rightarrow> nat list" where
  "utf8_char c =
     (if c < 128 then [c]
      else if c < 2048 then [192 + c div 64, 128 + c mod 64]
      else if c < 65536 then [224 + c div 4096, 128 + c div 64 mod 64, 128 + c mod 64]
      else [240 + c div 262144, 128 + c div 4096 mod 64, 128 + c div 64 mod 64,
            128 + c mod 64])"

fun encode_from :: "nat \<Rightarrow> pystr \<Rightarrow> exn + nat list" where
  "encode_from i [] = Inr []"
| "encode_from i (c # cs) =
     (if is_surrogate c
      then Inl (UnicodeEncodeError c i (Suc i + length (takeWhile is_surrogate cs)))
      else (case encode_from (Suc i) cs of
              Inl e \<Rightarrow> Inl e
            | Inr bs \<Rightarrow> Inr (utf8_char c @ bs)))"

definition encode_utf8 :: "pystr \<Rightarrow> exn + nat list" where
  "encode_utf8 s = encode_from 0 s"

definition always_safe :: "nat set" where
  "always_safe = set (py (''ABCDEFGHIJKLMNOPQRSTUVWXYZ'' @ ''abcdefghijklmnopqrstuvwxyz''
                          @ ''0123456789'' @ ''_.-~''))"

definition quoter :: "pystr \<Rightarrow> nat \<Rightarrow> pystr" where
  "quoter safe b =
     (if b \<in> always_safe \<or> b \<in> set safe then [b]
      else [37, hex_upper (b div 16), hex_upper (b mod 16)])"

definition quote :: "pystr \<Rightarrow> pystr \<Rightarrow> exn + pystr" where
  "quote string safe =
     (case encode_utf8 string of
        Inl e \<Rightarrow> Inl e
      | Inr bs \<Rightarrow> Inr (concat (map (quoter safe) bs)))"

section \<open>The folium objects\<close>

text \<open>
  The objects of the map library are records of the arguments the program constructs them
  from. A feature group holds its children in the order \<open>add_child\<close> received them.
\<close>

record folium_popup =
  html :: pystr
  max_width :: int

record folium_icon =
  color :: pystr
  icon :: pystr
  prefix :: pystr

record folium_marker =
  location :: "pyval list"
  popup :: folium_popup
  marker_icon :: folium_icon

record folium_geojson =
  geo_data :: pystr

datatype child = GeoJsonChild folium_geojson | MarkerChild folium_marker

record feature_group =
  fg_name :: pystr
  children :: "child list"

record folium_map =
  map_location :: "pyval list"
  zoom_start :: int
  tiles :: pystr
  root_html :: "pystr list"
  map_children :: "feature_group list"

definition add_child :: "feature_group \<Rightarrow> child \<Rightarrow> feature_group" where
  "add_child fg c = fg\<lparr>children := children fg @ [c]\<rparr>"

section \<open>The environment of a run\<close>

text \<open>
  What the program calls but does not define is a parameter of the model:
  \<^item> \<open>read_excel\<close>: \<open>pd.read_excel(path, engine="openpyxl")\<close>, the table or the exception;
  \<^item> \<open>open_read\<close>: the bytes of a file, or the exception of \<open>open\<close>;
  \<^item> \<open>decode_utf8\<close>: the strict UTF-8 decoder that the \<open>utf-8-sig\<close> codec calls;
  \<^item> \<open>GeoJson_check\<close>: the exception \<open>folium.GeoJson(data=...)\<close> raises for a text, if any;
  \<^item> \<open>Marker_check\<close>: the exception \<open>folium.Marker(location=...)\<close> raises for a location,
    if any;
  \<^item> \<open>save_check\<close>: the exception \<open>map_obj.save(path)\<close> raises, if any.

  The state of a run is what it has printed, one entry per call of \<open>print\<close>, and the
  files it has written.
\<close>

record env =
  read_excel :: "pystr \<Rightarrow> exn + dataframe"
  open_read :: "pystr \<Rightarrow> exn + nat list"
  decode_utf8 :: "nat list \<Rightarrow> exn + pystr"
  GeoJson_check :: "pystr \<Rightarrow> exn option"
  Marker_check :: "pyval list \<Rightarrow> exn option"
  save_check :: "pystr \<Rightarrow> folium_map \<Rightarrow> exn option"

record world =
  stdout :: "pystr list"
  written :: "(pystr \<times> folium_map) list"

definition print :: "pystr \<Rightarrow> world \<Rightarrow> world" where
  "print line w = w\<lparr>stdout := stdout w @ [line]\<rparr>"

text \<open>
  \<open>open(path, "r", encoding="utf-8-sig")\<close> followed by \<open>f.read()\<close>. The codec drops a
  leading byte-order mark \<open>EF BB BF\<close>; a file that is shorter than the mark and is a
  prefix of it decodes to the empty text; anything else goes to the UTF-8 decoder. Text
  mode then turns every \<open>CR LF\<close> and every other \<open>CR\<close> into \<open>LF\<close>.
\<close>

definition decode_utf_8_sig :: "env \<Rightarrow> nat list \<Rightarrow> exn + pystr" where
  "decode_utf_8_sig env bs =
     (if length bs < 3 \<and> bs = take (length bs) [239, 187, 191] then Inr []
      else if take 3 bs = [239, 187, 191] then decode_utf8 env (drop 3 bs)
      else decode_utf8 env bs)"

fun translate_newlines :: "pystr \<Rightarrow> pystr" where
  "translate_newlines [] = []"
| "translate_newlines [c] = (if c = 13 then [10] else [c])"
| "translate_newlines (c # d # cs) =
     (if c = 13 \<and> d = 10 then 10 # translate_newlines cs
      else if c = 13 then 10 # translate_newlines (d # cs)
      else c # translate_newlines (d # cs))"

definition read_text :: "env \<Rightarrow> nat list \<Rightarrow> exn + pystr" where
  "read_text env bs =
     (case decode_utf_8_sig env bs of
        Inl e \<Rightarrow> Inl e
      | Inr s \<Rightarrow> Inr (translate_newlines s))"

definition GeoJson :: "env \<Rightarrow> pystr \<Rightarrow> exn + folium_geojson" where
  "GeoJson env d = (case GeoJson_check env d of
                      Some e \<Rightarrow> Inl e
                    | None \<Rightarrow> Inr \<lparr>geo_data = d\<rparr>)"

definition Marker :: "env \<Rightarrow> pyval list \<Rightarrow> folium_popup \<Rightarrow> folium_icon \<Rightarrow> exn + folium_marker" where
  "Marker env loc p i = (case Marker_check env loc of
                           Some e \<Rightarrow> Inl e
                         | None \<Rightarrow> Inr \<lparr>location = loc, popup = p, marker_icon = i\<rparr>)"

definition save :: "env \<Rightarrow> folium_map \<Rightarrow> pystr \<Rightarrow> world \<Rightarrow> (exn + unit) \<times> world" where
  "save env map_obj output_file w =
     (case save_check env output_file map_obj of
        Some e \<Rightarrow> (Inl e, w)
      | None \<Rightarrow> (Inr (), w\<lparr>written := written w @ [(output_file, map_obj)]\<rparr>))"

section \<open>The program\<close>

subsection \<open>\<open>load_iit_data\<close>\<close>

definition load_iit_data :: "env \<Rightarrow> pystr \<Rightarrow> exn + dataframe" where
  "load_iit_data env file_path =
     (case read_excel env file_path of
        Inr data \<Rightarrow> Inr data
      | Inl e \<Rightarrow>
          if is_FileNotFoundError e
          then Inl (FileNotFoundError (py ''Excel file not found at: '' @ file_path))
          else Inl (Exception (py ''Error reading Excel file: '' @ str_exn e)))"

subsection \<open>\<open>create_feature_group\<close>\<close>

text \<open>The body of the \<open>try\<close> block, then the two \<open>except\<close> clauses in their order.\<close>

definition create_feature_group_body :: "env \<Rightarrow> pystr \<Rightarrow> exn + feature_group" where
  "create_feature_group_body env geojson_path =
     (let fg = \<lparr>fg_name = py ''map'', children = []\<rparr> in
      case open_read env geojson_path of
        Inl e \<Rightarrow> Inl e
      | Inr bs \<Rightarrow>
          (case read_text env bs of
             Inl e \<Rightarrow> Inl e
           | Inr geojson_data \<Rightarrow>
               (case GeoJson env geojson_data of
                  Inl e \<Rightarrow> Inl e
                | Inr g \<Rightarrow> Inr (add_child fg (GeoJsonChild g)))))"

definition create_feature_group :: "env \<Rightarrow> pystr \<Rightarrow> exn + feature_group" where
  "create_feature_group env geojson_path =
     (case create_feature_group_body env geojson_path of
        Inr fg \<Rightarrow> Inr fg
      | Inl e \<Rightarrow>
          if is_FileNotFoundError e
          then Inl (FileNotFoundError (py ''GeoJSON file not found at: '' @ geojson_path))
          else Inl (Exception (py ''Error creating feature group: '' @ str_exn e)))"

subsection \<open>\<open>create_popup_html\<close>\<close>

text \<open>The pieces of the template between its four placeholders.\<close>

definition popup_open :: pystr where
  \<open>popup_open =
     py (''\<newline>''
        @ ''    <div style="width:300px; padding:10px;">\<newline>''
        @ ''        <h4 style="color:#2c3e50; margin-bottom:10px; font-family: Arial, sans-serif;">\<newline>''
        @ ''            '')\<close>

definition popup_rank :: pystr where
  \<open>popup_rank =
     py (''\<newline>''
        @ ''        </h4>\<newline>''
        @ ''        <p style="margin:5px 0;"><b>Rank among IIT in India:</b> '')\<close>

definition popup_score :: pystr where
  \<open>popup_score =
     py (''</p>\<newline>''
        @ ''        <p style="margin:5px 0;"><b>NIRF Score:</b> '')\<close>

definition popup_img :: pystr where
  \<open>popup_img =
     py (''</p>\<newline>''
        @ ''        <div style="margin-top:10px; text-align:center;">\<newline>''
        @ ''            <img src="'')\<close>

definition popup_close :: pystr where
  \<open>popup_close =
     py (''" \<newline>''
        @ ''                 style="max-width:100%; \<newline>''
        @ ''                        height:200px; \<newline>''
        @ ''                        object-fit:cover; \<newline>''
        @ ''                        border-radius:5px; \<newline>''
        @ ''                        box-shadow: 0 2px 4px rgba(0,0,0,0.1);"\<newline>''
        @ ''                 onerror="this.onerror=null; this.src='https://via.placeholder.com/300x200?text=Image+Not+Available';"\<newline>''
        @ ''            >\<newline>''
        @ ''        </div>\<newline>''
        @ ''    </div>\<newline>''
        @ ''    '')\<close>

text \<open>
  The image reference is read and quoted first; the f-string then reads the name, the
  rank and the score, in this order, and formats each as \<open>str\<close> does.
\<close>

definition create_popup_html :: "series \<Rightarrow> exn + pystr" where
  "create_popup_html row =
     (case getitem row (py ''Image'') of
        Inl e \<Rightarrow> Inl e
      | Inr img \<Rightarrow>
     (case quote (str img) (py '':/?='') of
        Inl e \<Rightarrow> Inl e
      | Inr image_url \<Rightarrow>
     (case getitem row (py ''IIT College'') of
        Inl e \<Rightarrow> Inl e
      | Inr college \<Rightarrow>
     (case getitem row (py ''IIT Ranking'') of
        Inl e \<Rightarrow> Inl e
      | Inr ranking \<Rightarrow>
     (case getitem row (py ''NIRF Score'') of
        Inl e \<Rightarrow> Inl e
      | Inr score \<Rightarrow>
          Inr (popup_open @ str college @ popup_rank @ str ranking @ popup_score
               @ str score @ popup_img @ image_url @ popup_close))))))"

subsection \<open>\<open>add_iit_markers\<close>\<close>

text \<open>
  \<open>compose_marker\<close> is the \<open>try\<close> block of the loop up to the marker it hands to
  \<open>fg.add_child\<close>: the popup, then the two coordinates, then the constructor.
\<close>

definition compose_marker :: "env \<Rightarrow> series \<Rightarrow> exn + folium_marker" where
  "compose_marker env row =
     (case create_popup_html row of
        Inl e \<Rightarrow> Inl e
      | Inr h \<Rightarrow>
     (case getitem row (py ''Latitude'') of
        Inl e \<Rightarrow> Inl e
      | Inr lat \<Rightarrow>
     (case getitem row (py ''Longitude'') of
        Inl e \<Rightarrow> Inl e
      | Inr lon \<Rightarrow>
          Marker env [lat, lon] \<lparr>html = h, max_width = 300\<rparr>
            \<lparr>color = py ''red'', icon = py ''university'', prefix = py ''fa''\<rparr>)))"

text \<open>
  The loop. The \<open>except\<close> clause formats its message from \<open>row['IIT College']\<close>: when
  that lookup raises, the exception leaves the loop and the function.
\<close>

fun add_iit_markers_loop ::
  "env \<Rightarrow> series list \<Rightarrow> feature_group \<Rightarrow> world \<Rightarrow> (exn + unit) \<times> feature_group \<times> world" where
  "add_iit_markers_loop env [] fg w = (Inr (), fg, w)"
| "add_iit_markers_loop env (row # rest) fg w =
     (case compose_marker env row of
        Inr m \<Rightarrow> add_iit_markers_loop env rest (add_child fg (MarkerChild m)) w
      | Inl e \<Rightarrow>
          (case getitem row (py ''IIT College'') of
             Inl e' \<Rightarrow> (Inl e', fg, w)
           | Inr college \<Rightarrow>
               add_iit_markers_loop env rest fg
                 (print (py ''Error adding marker for '' @ str college @ py '': '' @ str_exn e) w)))"

definition add_iit_markers ::
  "env \<Rightarrow> feature_group \<Rightarrow> dataframe \<Rightarrow> world \<Rightarrow> (exn + unit) \<times> feature_group \<times> world" where
  "add_iit_markers env fg data w = add_iit_markers_loop env (iterrows data) fg w"

subsection \<open>\<open>create_iit_map\<close>\<close>

definition css :: pystr where
  \<open>css =
     py (''\<newline>''
        @ ''    <style>\<newline>''
        @ ''        .folium-popup {\<newline>''
        @ ''            font-family: Arial, sans-serif;\<newline>''
        @ ''        }\<newline>''
        @ ''        .folium-popup img {\<newline>''
        @ ''            max-width: 100%;\<newline>''
        @ ''            height: auto;\<newline>''
        @ ''            display: block;\<newline>''
        @ ''            margin: 10px auto;\<newline>''
        @ ''        }\<newline>''
        @ ''        .folium-popup h4 {\<newline>''
        @ ''            color: #2c3e50;\<newline>''
        @ ''            border-bottom: 2px solid #3498db;\<newline>''
        @ ''            padding-bottom: 5px;\<newline>''
        @ ''        }\<newline>''
        @ ''        .folium-popup p {\<newline>''
        @ ''            margin: 5px 0;\<newline>''
        @ ''            color: #34495e;\<newline>''
        @ ''        }\<newline>''
        @ ''    </style>\<newline>''
        @ ''    '')\<close>

definition create_iit_map ::
  "env \<Rightarrow> pystr \<Rightarrow> pystr \<Rightarrow> pystr \<Rightarrow> world \<Rightarrow> (exn + unit) \<times> world" where
  "create_iit_map env data_file geojson_file output_file w =
     (case load_iit_data env data_file of
        Inl e \<Rightarrow> (Inl e, w)
      | Inr data \<Rightarrow>
     (case create_feature_group env geojson_file of
        Inl e \<Rightarrow> (Inl e, w)
      | Inr fg \<Rightarrow>
          (let map_obj = \<lparr>map_location = [POther (py ''20.5937''), POther (py ''78.9629'')],
                          zoom_start = 5, tiles = py ''CartoDB positron'',
                          root_html = [], map_children = []\<rparr>;
               map_obj = map_obj\<lparr>root_html := root_html map_obj @ [css]\<rparr>
           in case add_iit_markers env fg data w of
                (Inl e, fg', w') \<Rightarrow> (Inl e, w')
              | (Inr u, fg', w') \<Rightarrow>
                  save env (map_obj\<lparr>map_children := map_children map_obj @ [fg']\<rparr>)
                    output_file w')))"

subsection \<open>\<open>main\<close>\<close>

definition data_file :: pystr where
  "data_file = py ''iit_data.xlsx''"

definition geojson_file :: pystr where
  "geojson_file = py ''india_states.json''"

definition output_file :: pystr where
  "output_file = py ''final12.html''"

text \<open>\<open>except Exception\<close> catches every exception of the model.\<close>

definition main :: "env \<Rightarrow> world \<Rightarrow> (exn + unit) \<times> world" where
  "main env w =
     (case create_iit_map env data_file geojson_file output_file w of
        (Inr u, w') \<Rightarrow>
          (Inr (), print (py ''Map created successfully! Open '' @ output_file
                          @ py '' in a web browser to view.'') w')
      | (Inl e, w') \<Rightarrow>
          (Inr (),
           print (py ''3. GeoJSON file exists and is valid'')
             (print (py ''2. Image URLs are valid and accessible'')
               (print (py ''1. Your Excel file contains all required columns'')
                 (print (py ''\<newline>Please ensure:'')
                   (print (py ''Error creating map: '' @ str_exn e) w'))))))"

text \<open>The exit status of the process: 0 unless an exception leaves \<open>main\<close>.\<close>

definition exit_status :: "env \<Rightarrow> world \<Rightarrow> nat" where
  "exit_status env w = (case fst (main env w) of Inr u \<Rightarrow> 0 | Inl e \<Rightarrow> 1)"

section \<open>Notions of the specification\<close>

text \<open>
  The markers of a feature group, the markers a list of rows composes (the rows whose
  \<open>try\<close> block raises are left out), and the diagnostics printed for the other rows.
\<close>

definition markers :: "feature_group \<Rightarrow> folium_marker list" where
  "markers fg =
     List.map_filter (\<lambda>c. case c of MarkerChild m \<Rightarrow> Some m | GeoJsonChild g \<Rightarrow> None)
       (children fg)"

definition composed :: "env \<Rightarrow> series list \<Rightarrow> folium_marker list" where
  "composed env rs =
     List.map_filter (\<lambda>row. case compose_marker env row of Inr m \<Rightarrow> Some m | Inl e \<Rightarrow> None) rs"

definition diagnostics :: "env \<Rightarrow> series list \<Rightarrow> pystr list" where
  "diagnostics env rs =
     List.map_filter
       (\<lambda>row. case compose_marker env row of
                Inr m \<Rightarrow> None
              | Inl e \<Rightarrow>
                  (case getitem row (py ''IIT College'') of
                     Inr college \<Rightarrow>
                       Some (py ''Error adding marker for '' @ str college @ py '': ''
                             @ str_exn e)
                   | Inl e' \<Rightarrow> None)) rs"

text \<open>
  A row has all required fields with valid types when the six columns are present, the
  text of its image reference can be encoded as UTF-8, and the map library accepts its
  pair of coordinates.
\<close>

definition required_columns :: "pystr list" where
  "required_columns =
     [py ''Image'', py ''IIT College'', py ''IIT Ranking'', py ''NIRF Score'',
      py ''Latitude'', py ''Longitude'']"

definition encodable :: "pystr \<Rightarrow> bool" where
  "encodable s = list_all (\<lambda>c. \<not> is_surrogate c) s"

definition valid_row :: "env \<Rightarrow> series \<Rightarrow> bool" where
  "valid_row env row =
     (list_all (\<lambda>k. k \<in> set (index row)) required_columns
      \<and> (case getitem row (py ''Image'') of
            Inr img \<Rightarrow> encodable (str img)
          | Inl e \<Rightarrow> False)
      \<and> (case getitem row (py ''Latitude'') of
            Inr lat \<Rightarrow>
              (case getitem row (py ''Longitude'') of
                 Inr lon \<Rightarrow> Marker_check env [lat, lon] = None
               | Inl e \<Rightarrow> False)
          | Inl e \<Rightarrow> False))"

section \<open>Sample runs\<close>

text \<open>
  A table of three institutions: the second has an empty latitude, the third an empty
  image cell. \<open>good_data\<close> keeps the two rows the map library accepts, and
  \<open>no_name_data\<close> is a table without the column \<open>IIT College\<close>.
\<close>

definition sample_columns :: "pystr list" where
  "sample_columns =
     [py ''IIT College'', py ''IIT Ranking'', py ''NIRF Score'', py ''Latitude'',
      py ''Longitude'', py ''Image'']"

definition madras :: "pyval list" where
  "madras = [PStr (py ''IIT Madras''), PInt 1, POther (py ''89.46''),
             POther (py ''12.9915''), POther (py ''80.2337''), PStr (py ''http://x/a b.png'')]"

definition delhi :: "pyval list" where
  "delhi = [PStr (py ''IIT Delhi''), PInt 2, POther (py ''86.66''),
            PNaN, POther (py ''77.1926''), PStr (py ''http://x/d.png'')]"

definition bombay :: "pyval list" where
  "bombay = [PStr (py ''IIT Bombay''), PInt 3, POther (py ''83.09''),
             POther (py ''19.1334''), POther (py ''72.9133''), PNaN]"

definition sample_data :: dataframe where
  "sample_data = \<lparr>columns = sample_columns, rows = [madras, delhi, bombay]\<rparr>"

definition good_data :: dataframe where
  "good_data = \<lparr>columns = sample_columns, rows = [madras, bombay]\<rparr>"

definition no_name_data :: dataframe where
  "no_name_data =
     \<lparr>columns = [py ''IIT Ranking'', py ''NIRF Score'', py ''Latitude'', py ''Longitude'',
                 py ''Image''],
      rows = [[PInt 1, POther (py ''89.46''), POther (py ''12.9915''),
               POther (py ''80.2337''), PStr (py ''http://x/a.png'')]]\<rparr>"

text \<open>
  An environment in which both input files exist: the boundary file starts with a
  byte-order mark and ends its first line with \<open>CR LF\<close>, the decoder is the identity on
  ASCII bytes, and the map library refuses a location with a NaN. \<open>sample_boundary\<close> is
  the text that reading the boundary file gives.
\<close>

definition sample_boundary_file :: "nat list" where
  \<open>sample_boundary_file =
     [239, 187, 191] @ py ''{"type": "FeatureCollection",'' @ [13, 10]
       @ py '' "features": []}''\<close>

definition sample_boundary :: pystr where
  \<open>sample_boundary = py ''{"type": "FeatureCollection",\<newline> "features": []}''\<close>

definition no_such_file :: "pystr \<Rightarrow> exn" where
  "no_such_file path =
     FileNotFoundError (py ''[Errno 2] No such file or directory: '' @ [39] @ path @ [39])"

definition sample_env :: env where
  "sample_env =
     \<lparr>read_excel = (\<lambda>path. if path = data_file then Inr sample_data
                             else Inl (no_such_file path)),
      open_read = (\<lambda>path. if path = geojson_file
                            then Inr sample_boundary_file
                            else Inl (no_such_file path)),
      decode_utf8 = (\<lambda>bs. if list_all (\<lambda>b. b < 128) bs then Inr bs
                            else Inl (OtherError (py ''UnicodeDecodeError'')
                                        (py ''invalid start byte''))),
      GeoJson_check = (\<lambda>d. None),
      Marker_check = (\<lambda>loc. if PNaN \<in> set loc
                              then Some (OtherError (py ''ValueError'')
                                           (py ''Location values cannot contain NaNs.''))
                              else None),
      save_check = (\<lambda>path map_obj. None)\<rparr>"

definition no_name_env :: env where
  "no_name_env = sample_env\<lparr>read_excel := (\<lambda>path. Inr no_name_data)\<rparr>"

definition w0 :: world where
  "w0 = \<lparr>stdout = [], written = []\<rparr>"

definition madras_row :: series where
  "madras_row = \<lparr>index = sample_columns, vals = madras\<rparr>"

definition madras_html :: pystr where
  "madras_html = popup_open @ py ''IIT Madras'' @ popup_rank @ py ''1'' @ popup_score
                 @ py ''89.46'' @ popup_img @ py ''http://x/a%20b.png'' @ popup_close"

definition delhi_row :: series where
  "delhi_row = \<lparr>index = sample_columns, vals = delhi\<rparr>"

definition bombay_row :: series where
  "bombay_row = \<lparr>index = sample_columns, vals = bombay\<rparr>"

definition bombay_html :: pystr where
  "bombay_html = popup_open @ py ''IIT Bombay'' @ popup_rank @ py ''3'' @ popup_score
                 @ py ''83.09'' @ popup_img @ py ''nan'' @ popup_close"

definition madras_marker :: folium_marker where
  "madras_marker =
     \<lparr>location = [POther (py ''12.9915''), POther (py ''80.2337'')],
      popup = \<lparr>html = madras_html, max_width = 300\<rparr>,
      marker_icon = \<lparr>color = py ''red'', icon = py ''university'', prefix = py ''fa''\<rparr>\<rparr>"

definition bombay_marker :: folium_marker where
  "bombay_marker =
     \<lparr>location = [POther (py ''19.1334''), POther (py ''72.9133'')],
      popup = \<lparr>html = bombay_html, max_width = 300\<rparr>,
      marker_icon = \<lparr>color = py ''red'', icon = py ''university'', prefix = py ''fa''\<rparr>\<rparr>"

definition sample_fg :: feature_group where
  "sample_fg = \<lparr>fg_name = py ''map'', children = [GeoJsonChild \<lparr>geo_data = sample_boundary\<rparr>]\<rparr>"

definition delhi_diagnostic :: pystr where
  "delhi_diagnostic =
     py ''Error adding marker for IIT Delhi: Location values cannot contain NaNs.''"

text \<open>
  Environments in which an input is missing or broken: no spreadsheet, a spreadsheet that
  is not a workbook, no boundary file, a boundary file that holds only \<open>{\<close>, and a boundary
  file that holds the plain text \<open>hello\<close>. The constructor \<open>folium.GeoJson\<close> takes the
  text \<open>hello\<close>, which is neither a URL nor starts with \<open>[\<close> or \<open>{\<close>, for the name of a
  file and opens it; here no file has that name.
\<close>

definition missing_source_env :: env where
  "missing_source_env = sample_env\<lparr>read_excel := (\<lambda>path. Inl (no_such_file path))\<rparr>"

definition corrupt_source_env :: env where
  "corrupt_source_env =
     sample_env\<lparr>read_excel :=
       (\<lambda>path. Inl (OtherError (py ''BadZipFile'') (py ''File is not a zip file'')))\<rparr>"

definition missing_boundary_env :: env where
  "missing_boundary_env = sample_env\<lparr>open_read := (\<lambda>path. Inl (no_such_file path))\<rparr>"

definition corrupt_boundary_env :: env where
  "corrupt_boundary_env =
     sample_env\<lparr>open_read := (\<lambda>path. if path = geojson_file then Inr (py ''{'')
                                        else Inl (no_such_file path)),
                GeoJson_check :=
                  (\<lambda>d. Some (OtherError (py ''JSONDecodeError'')
                     (py ''Expecting property name enclosed in double quotes: line 1 column 2 (char 1)'')))\<rparr>"

definition text_boundary_env :: env where
  "text_boundary_env =
     sample_env\<lparr>open_read := (\<lambda>path. if path = geojson_file then Inr (py ''hello'')
                                        else Inl (no_such_file path)),
                GeoJson_check := (\<lambda>d. if d = py ''hello'' then Some (no_such_file d)
                                      else None)\<rparr>"

text \<open>
  Two rows that have a name, a rank, a score and coordinates: one without the column
  \<open>Image\<close>, one whose image reference is the single surrogate code point U+D800.
\<close>

definition no_image_row :: series where
  "no_image_row =
     \<lparr>index = [py ''IIT College'', py ''IIT Ranking'', py ''NIRF Score'', py ''Latitude'',
               py ''Longitude''],
      vals = [PStr (py ''IIT Madras''), PInt 1, POther (py ''89.46''),
              POther (py ''12.9915''), POther (py ''80.2337'')]\<rparr>"

definition surrogate_row :: series where
  "surrogate_row =
     \<lparr>index = sample_columns,
      vals = [PStr (py ''IIT Madras''), PInt 1, POther (py ''89.46''),
              POther (py ''12.9915''), POther (py ''80.2337''), PStr [55296]]\<rparr>"

text \<open>The document and the state at the end of the run on the sample table.\<close>

definition sample_map :: folium_map where
  "sample_map =
     \<lparr>map_location = [POther (py ''20.5937''), POther (py ''78.9629'')],
      zoom_start = 5, tiles = py ''CartoDB positron'', root_html = [css],
      map_children =
        [\<lparr>fg_name = py ''map'',
          children = [GeoJsonChild \<lparr>geo_data = sample_boundary\<rparr>, MarkerChild madras_marker,
                      MarkerChild bombay_marker]\<rparr>]\<rparr>"

definition sample_result :: world where
  "sample_result = \<lparr>stdout = [delhi_diagnostic], written = [(output_file, sample_map)]\<rparr>"

definition failure_report :: "exn \<Rightarrow> pystr list" where
  "failure_report e =
     [py ''Error creating map: '' @ str_exn e,
      py ''\<newline>Please ensure:'',
      py ''1. Your Excel file contains all required columns'',
      py ''2. Image URLs are valid and accessible'',
      py ''3. GeoJSON file exists and is valid'']"

section \<open>Basic facts\<close>

lemma py_eq_iff: "py a = py b \<longleftrightarrow> a = b"
  unfolding py_def by (simp add: inj_map_eq_map inj_on_def)

lemma lookup_None_iff: "lookup k cs vs = None \<longleftrightarrow> k \<notin> set cs"
  by (induction k cs vs rule: lookup.induct) auto

lemma getitem_Inl_iff:
  "getitem row k = Inl e \<longleftrightarrow> k \<notin> set (index row) \<and> e = KeyError k"
proof (cases "lookup k (index row) (vals row)")
  case None
  then show ?thesis using lookup_None_iff[of k "index row" "vals row"]
    by (auto simp: getitem_def)
next
  case (Some v)
  then show ?thesis using lookup_None_iff[of k "index row" "vals row"]
    by (auto simp: getitem_def)
qed

lemma getitem_present: "k \<in> set (index row) \<Longrightarrow> \<exists>v. getitem row k = Inr v"
  by (cases "getitem row k") (auto simp: getitem_Inl_iff)

lemma index_iterrows: "row \<in> set (iterrows data) \<Longrightarrow> index row = columns data"
  by (auto simp: iterrows_def)

section \<open>The marker loop\<close>

lemma create_popup_html_no_college:
  assumes "py ''IIT College'' \<notin> set (index row)"
  shows "\<exists>e. create_popup_html row = Inl e"
proof -
  have "getitem row (py ''IIT College'') = Inl (KeyError (py ''IIT College''))"
    using assms by (simp add: getitem_Inl_iff)
  then show ?thesis
    by (simp add: create_popup_html_def split: sum.splits)
qed

lemma compose_marker_no_college:
  "py ''IIT College'' \<notin> set (index row) \<Longrightarrow> \<exists>e. compose_marker env row = Inl e"
  using create_popup_html_no_college[of row] by (auto simp: compose_marker_def)

text \<open>
  When the name column is there, the loop handles every row and returns: it adds the
  markers that could be composed and prints one diagnostic for each of the other rows.
\<close>

lemma loop_college_present:
  "\<forall>row\<in>set rs. py ''IIT College'' \<in> set (index row) \<Longrightarrow>
   add_iit_markers_loop env rs fg w =
     (Inr (), fg\<lparr>children := children fg @ map MarkerChild (composed env rs)\<rparr>,
      w\<lparr>stdout := stdout w @ diagnostics env rs\<rparr>)"
proof (induction rs arbitrary: fg w)
  case Nil
  then show ?case by (simp add: composed_def diagnostics_def map_filter_simps)
next
  case (Cons row rs)
  then obtain v where v: "getitem row (py ''IIT College'') = Inr v"
    using getitem_present[of "py ''IIT College''" row] by auto
  show ?case
  proof (cases "compose_marker env row")
    case (Inl e)
    then show ?thesis using Cons v
      by (simp add: composed_def diagnostics_def map_filter_simps print_def)
  next
    case (Inr m)
    then show ?thesis using Cons
      by (simp add: composed_def diagnostics_def map_filter_simps add_child_def)
  qed
qed

text \<open>When the name column is not there, no row composes and the first row ends the loop.\<close>

lemma composed_no_college:
  "\<forall>row\<in>set rs. py ''IIT College'' \<notin> set (index row) \<Longrightarrow> composed env rs = []"
proof (induction rs)
  case Nil
  then show ?case by (simp add: composed_def map_filter_simps)
next
  case (Cons row rs)
  then obtain e where "compose_marker env row = Inl e"
    using compose_marker_no_college[of row env] by auto
  then show ?case using Cons by (simp add: composed_def map_filter_simps)
qed

lemma loop_college_absent:
  assumes "py ''IIT College'' \<notin> set (index row)"
  shows "add_iit_markers_loop env (row # rs) fg w =
           (Inl (KeyError (py ''IIT College'')), fg, w)"
proof -
  obtain e where "compose_marker env row = Inl e"
    using compose_marker_no_college[OF assms] by auto
  moreover have "getitem row (py ''IIT College'') = Inl (KeyError (py ''IIT College''))"
    using assms by (simp add: getitem_Inl_iff)
  ultimately show ?thesis by simp
qed

section \<open>The boundary layer\<close>

lemma create_feature_group_ok:
  assumes "open_read env p = Inr bs" and "read_text env bs = Inr t"
    and "GeoJson_check env t = None"
  shows "create_feature_group env p =
           Inr \<lparr>fg_name = py ''map'', children = [GeoJsonChild \<lparr>geo_data = t\<rparr>]\<rparr>"
  using assms
  by (simp add: create_feature_group_def create_feature_group_body_def GeoJson_def
      add_child_def)

lemma read_text_decoder:
  "decode_utf8 env = decode_utf8 env' \<Longrightarrow> read_text env bs = read_text env' bs"
  by (auto simp: read_text_def decode_utf_8_sig_def)

lemma sample_read_text: "read_text sample_env sample_boundary_file = Inr sample_boundary"
  by (simp add: read_text_def decode_utf_8_sig_def sample_env_def sample_boundary_file_def
      sample_boundary_def py_def)

section \<open>Percent-encoding and the popup\<close>

lemma encode_from_ok:
  "encodable s \<Longrightarrow> encode_from i s = Inr (concat (map utf8_char s))"
  by (induction s arbitrary: i) (auto simp: encodable_def)

lemma encode_from_Inr_encodable: "encode_from i s = Inr bs \<Longrightarrow> encodable s"
  by (induction s arbitrary: i bs) (auto simp: encodable_def split: if_splits sum.splits)

lemma encode_from_bad:
  "\<not> encodable s \<Longrightarrow> \<exists>c a b. encode_from i s = Inl (UnicodeEncodeError c a b)"
proof (induction s arbitrary: i)
  case Nil
  then show ?case by (simp add: encodable_def)
next
  case (Cons c s)
  show ?case
  proof (cases "is_surrogate c")
    case True
    then show ?thesis by simp
  next
    case False
    with Cons.prems have "\<not> encodable s" by (simp add: encodable_def)
    then obtain c' a b where "encode_from (Suc i) s = Inl (UnicodeEncodeError c' a b)"
      using Cons.IH by blast
    with False show ?thesis by simp
  qed
qed

lemma quote_encodable:
  "encodable s \<Longrightarrow> quote s safe = Inr (concat (map (quoter safe) (concat (map utf8_char s))))"
  by (simp add: quote_def encode_utf8_def encode_from_ok)

lemma quote_Inr_encodable: "quote s safe = Inr url \<Longrightarrow> encodable s"
  by (auto simp: quote_def encode_utf8_def split: sum.splits dest: encode_from_Inr_encodable)

lemma quote_not_encodable:
  "\<not> encodable s \<Longrightarrow> \<exists>c a b. quote s safe = Inl (UnicodeEncodeError c a b)"
  using encode_from_bad[of s 0] by (auto simp: quote_def encode_utf8_def)

lemma encodable_append: "encodable (a @ b) \<longleftrightarrow> encodable a \<and> encodable b"
  by (simp add: encodable_def)

lemma quote_append:
  assumes "quote (a @ b) safe = Inr url"
  shows "\<exists>ua ub. quote a safe = Inr ua \<and> quote b safe = Inr ub \<and> url = ua @ ub"
proof -
  have "encodable a" "encodable b"
    using quote_Inr_encodable[OF assms] by (simp_all add: encodable_append)
  moreover have "encodable (a @ b)" using calculation by (simp add: encodable_append)
  ultimately show ?thesis using assms by (simp add: quote_encodable)
qed

lemma quote_ascii_char:
  "c < 128 \<Longrightarrow> quote [c] safe = Inr (quoter safe c)"
  by (simp add: quote_def encode_utf8_def is_surrogate_def utf8_char_def)

lemma quoter_safe: "b \<in> set safe \<Longrightarrow> quoter safe b = [b]"
  by (simp add: quoter_def)

lemma safe_chars: "set (py '':/?='') = {58, 47, 63, 61}"
  by (simp add: py_def) 

lemma quote_keeps_safe:
  assumes "c \<in> set (py '':/?='')" and "quote (a @ [c] @ b) (py '':/?='') = Inr url"
  shows "\<exists>ua ub. quote a (py '':/?='') = Inr ua \<and> quote b (py '':/?='') = Inr ub \<and> url = ua @ [c] @ ub"
proof -
  from assms(1) have "c < 128" by (auto simp: safe_chars)
  then have c: "quote [c] (py '':/?='') = Inr [c]"
    using assms(1) by (simp add: quote_ascii_char quoter_safe)
  from quote_append[OF assms(2)] obtain ua u' where
    ua: "quote a (py '':/?='') = Inr ua" and u': "quote ([c] @ b) (py '':/?='') = Inr u'" and url: "url = ua @ u'"
    by blast
  from quote_append[OF u'] c obtain ub where "quote b (py '':/?='') = Inr ub" "u' = [c] @ ub"
    by auto
  with ua url show ?thesis by simp
qed

lemma quote_example:
  "quote (py ''http://x/a b.png'') (py '':/?='') = Inr (py ''http://x/a%20b.png'')"
  by (simp add: py_def quote_def encode_utf8_def is_surrogate_def utf8_char_def quoter_def
      always_safe_def hex_upper_def)

lemma create_popup_html_Inr:
  assumes "create_popup_html row = Inr h"
  shows "\<exists>img url college ranking score.
           getitem row (py ''Image'') = Inr img \<and> quote (str img) (py '':/?='') = Inr url
           \<and> getitem row (py ''IIT College'') = Inr college
           \<and> getitem row (py ''IIT Ranking'') = Inr ranking
           \<and> getitem row (py ''NIRF Score'') = Inr score
           \<and> h = popup_open @ str college @ popup_rank @ str ranking @ popup_score
                 @ str score @ popup_img @ url @ popup_close"
  using assms by (auto simp: create_popup_html_def split: sum.splits)

lemma quote_escapes:
  assumes "d < 128" and "d \<notin> always_safe" and "d \<notin> set safe"
    and "quote (a @ [d] @ b) safe = Inr url"
  shows "\<exists>ua ub. quote a safe = Inr ua \<and> quote b safe = Inr ub
           \<and> url = ua @ [37, hex_upper (d div 16), hex_upper (d mod 16)] @ ub"
proof -
  have d: "quote [d] safe = Inr [37, hex_upper (d div 16), hex_upper (d mod 16)]"
    using assms(1-3) by (simp add: quote_ascii_char quoter_def)
  from quote_append[OF assms(4)] obtain ua u' where
    ua: "quote a safe = Inr ua" and u': "quote ([d] @ b) safe = Inr u'" and url: "url = ua @ u'"
    by blast
  from quote_append[OF u'] d obtain ub where
    "quote b safe = Inr ub" "u' = [37, hex_upper (d div 16), hex_upper (d mod 16)] @ ub"
    by auto
  with ua url show ?thesis by simp
qed

lemma getitem_madras:
  "getitem madras_row (py ''Image'') = Inr (PStr (py ''http://x/a b.png''))"
  "getitem madras_row (py ''IIT College'') = Inr (PStr (py ''IIT Madras''))"
  "getitem madras_row (py ''IIT Ranking'') = Inr (PInt 1)"
  "getitem madras_row (py ''NIRF Score'') = Inr (POther (py ''89.46''))"
  "getitem madras_row (py ''Latitude'') = Inr (POther (py ''12.9915''))"
  "getitem madras_row (py ''Longitude'') = Inr (POther (py ''80.2337''))"
  by (simp_all add: getitem_def madras_row_def sample_columns_def madras_def py_eq_iff)

lemma str_int_1: "str_int 1 = py ''1''"
  by (simp add: str_int_def str_nat.simps py_def)

lemma popup_madras: "create_popup_html madras_row = Inr madras_html"
  by (simp add: create_popup_html_def getitem_madras quote_example madras_html_def str_int_1)

section \<open>Counting and ordering the markers\<close>

lemma markers_append:
  "markers (fg\<lparr>children := children fg @ map MarkerChild ms\<rparr>) = markers fg @ ms"
  by (induction ms rule: rev_induct) (simp_all add: markers_def map_filter_def)

lemma length_composed_le: "length (composed env rs) \<le> length rs"
  by (simp add: composed_def map_filter_def)

lemma valid_row_composes:
  assumes "valid_row env row"
  shows "\<exists>m. compose_marker env row = Inr m"
proof -
  from assms have cols: "\<And>k. k \<in> set required_columns \<Longrightarrow> k \<in> set (index row)"
    by (simp add: valid_row_def list_all_iff)
  have "\<exists>v. getitem row (py ''Image'') = Inr v" "\<exists>v. getitem row (py ''IIT College'') = Inr v"
    "\<exists>v. getitem row (py ''IIT Ranking'') = Inr v" "\<exists>v. getitem row (py ''NIRF Score'') = Inr v"
    "\<exists>v. getitem row (py ''Latitude'') = Inr v" "\<exists>v. getitem row (py ''Longitude'') = Inr v"
    by (rule getitem_present, rule cols, simp add: required_columns_def)+
  then obtain img college ranking score lat lon where g:
    "getitem row (py ''Image'') = Inr img" "getitem row (py ''IIT College'') = Inr college"
    "getitem row (py ''IIT Ranking'') = Inr ranking" "getitem row (py ''NIRF Score'') = Inr score"
    "getitem row (py ''Latitude'') = Inr lat" "getitem row (py ''Longitude'') = Inr lon"
    by blast
  from assms g have "encodable (str img)" and ok: "Marker_check env [lat, lon] = None"
    by (simp_all add: valid_row_def)
  then have "\<exists>url. quote (str img) (py '':/?='') = Inr url"
    by (simp add: quote_encodable)
  then obtain url where "quote (str img) (py '':/?='') = Inr url" by blast
  with g ok show ?thesis
    by (simp add: compose_marker_def create_popup_html_def Marker_def)
qed

lemma composed_all_valid:
  "\<forall>row\<in>set rs. valid_row env row \<Longrightarrow> length (composed env rs) = length rs"
proof (induction rs)
  case Nil
  then show ?case by (simp add: composed_def map_filter_simps)
next
  case (Cons row rs)
  then obtain m where "compose_marker env row = Inr m"
    using valid_row_composes[of env row] by auto
  with Cons show ?case by (simp add: composed_def map_filter_simps)
qed

lemma valid_row_college: "valid_row env row \<Longrightarrow> py ''IIT College'' \<in> set (index row)"
  by (simp add: valid_row_def required_columns_def)

lemma length_iterrows: "length (iterrows data) = length (rows data)"
  by (simp add: iterrows_def)

text \<open>
  All rows of a table share its columns, so either every row has the name column or none
  has. In both cases the feature group ends with the markers that could be composed.
\<close>

lemma add_iit_markers_children:
  "children (fst (snd (add_iit_markers env fg data w))) =
     children fg @ map MarkerChild (composed env (iterrows data))"
proof (cases "py ''IIT College'' \<in> set (columns data)")
  case True
  then have "\<forall>row\<in>set (iterrows data). py ''IIT College'' \<in> set (index row)"
    by (simp add: index_iterrows)
  then show ?thesis
    by (simp add: add_iit_markers_def loop_college_present)
next
  case False
  then have none: "\<forall>row\<in>set (iterrows data). py ''IIT College'' \<notin> set (index row)"
    by (simp add: index_iterrows)
  show ?thesis
  proof (cases "iterrows data")
    case Nil
    then show ?thesis by (simp add: add_iit_markers_def composed_def map_filter_simps)
  next
    case (Cons row rs)
    with none have "py ''IIT College'' \<notin> set (index row)" by simp
    then have "add_iit_markers_loop env (row # rs) fg w =
                 (Inl (KeyError (py ''IIT College'')), fg, w)"
      by (rule loop_college_absent)
    with Cons composed_no_college[OF none, of env] show ?thesis
      by (simp add: add_iit_markers_def)
  qed
qed

lemma add_iit_markers_markers:
  "markers (fst (snd (add_iit_markers env fg data w))) =
     markers fg @ composed env (iterrows data)"
proof -
  have "fst (snd (add_iit_markers env fg data w)) =
          (fst (snd (add_iit_markers env fg data w)))
            \<lparr>children := children fg @ map MarkerChild (composed env (iterrows data))\<rparr>"
    using add_iit_markers_children[of env fg data w] by simp
  then have "markers (fst (snd (add_iit_markers env fg data w))) =
     List.map_filter (\<lambda>c. case c of MarkerChild m \<Rightarrow> Some m | GeoJsonChild g \<Rightarrow> None)
       (children fg @ map MarkerChild (composed env (iterrows data)))"
    using add_iit_markers_children[of env fg data w] by (simp add: markers_def)
  also have "\<dots> = markers fg @ composed env (iterrows data)"
    using markers_append[of fg "composed env (iterrows data)"] by (simp add: markers_def)
  finally show ?thesis .
qed

lemma add_iit_markers_returns:
  assumes "py ''IIT College'' \<in> set (columns data)"
  shows "add_iit_markers env fg data w =
           (Inr (), fg\<lparr>children := children fg @ map MarkerChild (composed env (iterrows data))\<rparr>,
            w\<lparr>stdout := stdout w @ diagnostics env (iterrows data)\<rparr>)"
proof -
  from assms have "\<forall>row\<in>set (iterrows data). py ''IIT College'' \<in> set (index row)"
    by (simp add: index_iterrows)
  then show ?thesis by (simp add: add_iit_markers_def loop_college_present)
qed

lemma compose_marker_location:
  assumes "compose_marker env row = Inr m"
  shows "\<exists>lat lon. getitem row (py ''Latitude'') = Inr lat
           \<and> getitem row (py ''Longitude'') = Inr lon \<and> location m = [lat, lon]"
  using assms
  by (auto simp: compose_marker_def Marker_def split: sum.splits option.splits)

section \<open>The sample rows\<close>

lemma getitem_delhi:
  "getitem delhi_row (py ''Image'') = Inr (PStr (py ''http://x/d.png''))"
  "getitem delhi_row (py ''IIT College'') = Inr (PStr (py ''IIT Delhi''))"
  "getitem delhi_row (py ''IIT Ranking'') = Inr (PInt 2)"
  "getitem delhi_row (py ''NIRF Score'') = Inr (POther (py ''86.66''))"
  "getitem delhi_row (py ''Latitude'') = Inr PNaN"
  "getitem delhi_row (py ''Longitude'') = Inr (POther (py ''77.1926''))"
  by (simp_all add: getitem_def delhi_row_def sample_columns_def delhi_def py_eq_iff)

lemma getitem_bombay:
  "getitem bombay_row (py ''Image'') = Inr PNaN"
  "getitem bombay_row (py ''IIT College'') = Inr (PStr (py ''IIT Bombay''))"
  "getitem bombay_row (py ''IIT Ranking'') = Inr (PInt 3)"
  "getitem bombay_row (py ''NIRF Score'') = Inr (POther (py ''83.09''))"
  "getitem bombay_row (py ''Latitude'') = Inr (POther (py ''19.1334''))"
  "getitem bombay_row (py ''Longitude'') = Inr (POther (py ''72.9133''))"
  by (simp_all add: getitem_def bombay_row_def sample_columns_def bombay_def py_eq_iff)

lemma quote_nan: "quote (py ''nan'') (py '':/?='') = Inr (py ''nan'')"
  by (simp add: py_def quote_def encode_utf8_def is_surrogate_def utf8_char_def quoter_def
      always_safe_def)

lemma quote_delhi: "quote (py ''http://x/d.png'') (py '':/?='') = Inr (py ''http://x/d.png'')"
  by (simp add: py_def quote_def encode_utf8_def is_surrogate_def utf8_char_def quoter_def
      always_safe_def)

lemma str_int_3: "str_int 3 = py ''3''"
  by (simp add: str_int_def str_nat.simps py_def)

lemma popup_bombay: "create_popup_html bombay_row = Inr bombay_html"
  by (simp add: create_popup_html_def getitem_bombay quote_nan bombay_html_def str_int_3)

lemma compose_madras: "compose_marker sample_env madras_row = Inr madras_marker"
  by (simp add: compose_marker_def popup_madras getitem_madras Marker_def sample_env_def
      madras_marker_def)

lemma compose_bombay: "compose_marker sample_env bombay_row = Inr bombay_marker"
  by (simp add: compose_marker_def popup_bombay getitem_bombay Marker_def sample_env_def
      bombay_marker_def)

lemma compose_delhi:
  "compose_marker sample_env delhi_row =
     Inl (OtherError (py ''ValueError'') (py ''Location values cannot contain NaNs.''))"
  by (simp add: compose_marker_def create_popup_html_def getitem_delhi quote_delhi Marker_def
      sample_env_def)

lemma iterrows_sample: "iterrows sample_data = [madras_row, delhi_row, bombay_row]"
  by (simp add: iterrows_def sample_data_def madras_row_def delhi_row_def bombay_row_def)

lemma iterrows_good: "iterrows good_data = [madras_row, bombay_row]"
  by (simp add: iterrows_def good_data_def madras_row_def bombay_row_def)

lemma composed_sample:
  "composed sample_env [madras_row, delhi_row, bombay_row] = [madras_marker, bombay_marker]"
  by (simp add: composed_def map_filter_simps compose_madras compose_delhi compose_bombay)

lemma encodable_ascii: "list_all (\<lambda>c. c < 128) s \<Longrightarrow> encodable s"
  by (induction s) (auto simp: encodable_def is_surrogate_def)

lemma valid_madras: "valid_row sample_env madras_row"
proof -
  have "list_all (\<lambda>k. k \<in> set (index madras_row)) required_columns"
    by (simp add: required_columns_def madras_row_def sample_columns_def py_eq_iff)
  moreover have "encodable (str (PStr (py ''http://x/a b.png'')))"
    by (rule encodable_ascii) (simp add: py_def)
  moreover have "Marker_check sample_env [POther (py ''12.9915''), POther (py ''80.2337'')] = None"
    by (simp add: sample_env_def)
  ultimately show ?thesis
    by (simp add: valid_row_def getitem_madras)
qed

lemma valid_bombay: "valid_row sample_env bombay_row"
proof -
  have "list_all (\<lambda>k. k \<in> set (index bombay_row)) required_columns"
    by (simp add: required_columns_def bombay_row_def sample_columns_def py_eq_iff)
  moreover have "encodable (str (PNaN))"
    by (rule encodable_ascii) (simp add: py_def)
  moreover have "Marker_check sample_env [POther (py ''19.1334''), POther (py ''72.9133'')] = None"
    by (simp add: sample_env_def)
  ultimately show ?thesis
    by (simp add: valid_row_def getitem_bombay)
qed

section \<open>Failures of the pipeline\<close>

lemma create_feature_group_Inr:
  assumes "create_feature_group env p = Inr fg"
  shows "\<exists>bs t. open_read env p = Inr bs \<and> read_text env bs = Inr t
           \<and> GeoJson_check env t = None
           \<and> fg = \<lparr>fg_name = py ''map'', children = [GeoJsonChild \<lparr>geo_data = t\<rparr>]\<rparr>"
  using assms
  by (auto simp: create_feature_group_def create_feature_group_body_def GeoJson_def
      add_child_def split: sum.splits if_splits option.splits)

lemma create_feature_group_open_fails:
  assumes "open_read env p = Inl e"
  shows "create_feature_group env p =
           (if is_FileNotFoundError e
            then Inl (FileNotFoundError (py ''GeoJSON file not found at: '' @ p))
            else Inl (Exception (py ''Error creating feature group: '' @ str_exn e)))"
  using assms by (simp add: create_feature_group_def create_feature_group_body_def)

lemma create_feature_group_decode_fails:
  assumes "open_read env p = Inr bs" and "read_text env bs = Inl e"
  shows "create_feature_group env p =
           (if is_FileNotFoundError e
            then Inl (FileNotFoundError (py ''GeoJSON file not found at: '' @ p))
            else Inl (Exception (py ''Error creating feature group: '' @ str_exn e)))"
  using assms by (simp add: create_feature_group_def create_feature_group_body_def)

lemma create_feature_group_GeoJson_fails:
  assumes "open_read env p = Inr bs" and "read_text env bs = Inr t"
    and "GeoJson_check env t = Some e"
  shows "create_feature_group env p =
           (if is_FileNotFoundError e
            then Inl (FileNotFoundError (py ''GeoJSON file not found at: '' @ p))
            else Inl (Exception (py ''Error creating feature group: '' @ str_exn e)))"
  using assms
  by (simp add: create_feature_group_def create_feature_group_body_def GeoJson_def)

lemma load_iit_data_fails:
  assumes "read_excel env p = Inl e"
  shows "load_iit_data env p =
           (if is_FileNotFoundError e
            then Inl (FileNotFoundError (py ''Excel file not found at: '' @ p))
            else Inl (Exception (py ''Error reading Excel file: '' @ str_exn e)))"
  using assms by (simp add: load_iit_data_def)

lemma load_iit_data_ok: "read_excel env p = Inr data \<Longrightarrow> load_iit_data env p = Inr data"
  by (simp add: load_iit_data_def)

lemma load_iit_data_Inr: "load_iit_data env p = Inr data \<Longrightarrow> read_excel env p = Inr data"
  by (auto simp: load_iit_data_def split: sum.splits if_splits)

lemma create_iit_map_load_fails:
  "load_iit_data env d = Inl e \<Longrightarrow> create_iit_map env d g out w = (Inl e, w)"
  by (simp add: create_iit_map_def)

lemma create_iit_map_boundary_fails:
  "load_iit_data env d = Inr data \<Longrightarrow> create_feature_group env g = Inl e \<Longrightarrow>
   create_iit_map env d g out w = (Inl e, w)"
  by (simp add: create_iit_map_def)

lemma main_failure:
  "create_iit_map env data_file geojson_file output_file w = (Inl e, w') \<Longrightarrow>
   main env w = (Inr (), w'\<lparr>stdout := stdout w' @ failure_report e\<rparr>)"
  by (simp add: main_def print_def failure_report_def)

lemma main_success:
  "create_iit_map env data_file geojson_file output_file w = (Inr u, w') \<Longrightarrow>
   main env w = (Inr (), w'\<lparr>stdout := stdout w' @
       [py ''Map created successfully! Open '' @ output_file @ py '' in a web browser to view.'']\<rparr>)"
  by (simp add: main_def print_def)

lemma main_returns: "fst (main env w) = Inr ()"
proof (cases "create_iit_map env data_file geojson_file output_file w")
  case (Pair r w')
  then show ?thesis
    by (cases r) (simp_all add: main_failure main_success)
qed

lemma sample_feature_group: "create_feature_group sample_env geojson_file = Inr sample_fg"
proof -
  have o: "open_read sample_env geojson_file = Inr sample_boundary_file"
    and g: "GeoJson_check sample_env sample_boundary = None"
    by (simp_all add: sample_env_def)
  show ?thesis
    unfolding sample_fg_def by (rule create_feature_group_ok[OF o sample_read_text g])
qed

lemma text_boundary_group:
  "create_feature_group text_boundary_env geojson_file =
     Inl (FileNotFoundError (py ''GeoJSON file not found at: '' @ geojson_file))"
proof -
  have o: "open_read text_boundary_env geojson_file = Inr (py ''hello'')"
    by (simp add: text_boundary_env_def)
  have d: "read_text text_boundary_env (py ''hello'') = Inr (py ''hello'')"
    by (simp add: read_text_def decode_utf_8_sig_def text_boundary_env_def sample_env_def
        py_def)
  have g: "GeoJson_check text_boundary_env (py ''hello'') = Some (no_such_file (py ''hello''))"
    by (simp add: text_boundary_env_def py_def)
  show ?thesis
    using create_feature_group_GeoJson_fails[OF o d g] by (simp add: no_such_file_def)
qed

lemma corrupt_boundary_group:
  "create_feature_group corrupt_boundary_env geojson_file =
     Inl (Exception (py ''Error creating feature group: ''
        @ py ''Expecting property name enclosed in double quotes: line 1 column 2 (char 1)''))"
proof -
  have o: "open_read corrupt_boundary_env geojson_file = Inr (py ''{'')"
    by (simp add: corrupt_boundary_env_def)
  have d: "read_text corrupt_boundary_env (py ''{'') = Inr (py ''{'')"
    by (simp add: read_text_def decode_utf_8_sig_def corrupt_boundary_env_def sample_env_def
        py_def)
  have g: "GeoJson_check corrupt_boundary_env (py ''{'') =
             Some (OtherError (py ''JSONDecodeError'')
               (py ''Expecting property name enclosed in double quotes: line 1 column 2 (char 1)''))"
    by (simp add: corrupt_boundary_env_def)
  show ?thesis
    using create_feature_group_GeoJson_fails[OF o d g] by simp
qed

lemma decode_utf_8_sig_bom:
  "decode_utf_8_sig env ([239, 187, 191] @ bs) = decode_utf8 env bs"
  by (simp add: decode_utf_8_sig_def)

lemma decode_utf_8_sig_no_bom:
  assumes "3 \<le> length bs" and "take 3 bs \<noteq> [239, 187, 191]"
  shows "decode_utf_8_sig env bs = decode_utf8 env bs"
  using assms by (simp add: decode_utf_8_sig_def)

lemma translate_newlines_no_cr: "13 \<notin> set s \<Longrightarrow> translate_newlines s = s"
  by (induction s rule: translate_newlines.induct) auto

lemma translate_newlines_crlf:
  "13 \<notin> set a \<Longrightarrow> translate_newlines (a @ [13, 10] @ b) = a @ 10 # translate_newlines b"
  by (induction a rule: translate_newlines.induct) auto

text \<open>
  What the boundary builder does in the other cases: a missing file is reported as not
  found under its path; the text handed to the map library is the text read from the
  file; a failure of the read or of the constructor that is not a \<open>FileNotFoundError\<close> is
  wrapped; and a run whose table loads stops at the builder's exception with no file
  written.
\<close>

lemma create_feature_group_errors:
  "(open_read env p = Inl e \<and> is_FileNotFoundError e \<longrightarrow>
      create_feature_group env p =
        Inl (FileNotFoundError (py ''GeoJSON file not found at: '' @ p)))
   \<and> (open_read env p = Inr bs \<and> create_feature_group env p = Inr fg \<longrightarrow>
      (\<exists>t. read_text env bs = Inr t
          \<and> fg = \<lparr>fg_name = py ''map'', children = [GeoJsonChild \<lparr>geo_data = t\<rparr>]\<rparr>))
   \<and> (open_read env p = Inr bs \<and> read_text env bs = Inl e' \<and> \<not> is_FileNotFoundError e'
        \<longrightarrow> create_feature_group env p =
              Inl (Exception (py ''Error creating feature group: '' @ str_exn e')))
   \<and> (open_read env p = Inr bs \<and> read_text env bs = Inr t
        \<and> GeoJson_check env t = Some e' \<and> \<not> is_FileNotFoundError e'
        \<longrightarrow> create_feature_group env p =
              Inl (Exception (py ''Error creating feature group: '' @ str_exn e')))
   \<and> (read_excel env d = Inr data \<and> create_feature_group env p = Inl e''
        \<longrightarrow> create_iit_map env d p out w = (Inl e'', w))"
proof (intro conjI impI)
  assume "open_read env p = Inl e \<and> is_FileNotFoundError e"
  then show "create_feature_group env p =
        Inl (FileNotFoundError (py ''GeoJSON file not found at: '' @ p))"
    by (simp add: create_feature_group_open_fails)
next
  assume A: "open_read env p = Inr bs \<and> create_feature_group env p = Inr fg"
  with create_feature_group_Inr[of env p fg]
  show "\<exists>t. read_text env bs = Inr t
          \<and> fg = \<lparr>fg_name = py ''map'', children = [GeoJsonChild \<lparr>geo_data = t\<rparr>]\<rparr>"
    by auto
next
  assume "open_read env p = Inr bs \<and> read_text env bs = Inl e' \<and> \<not> is_FileNotFoundError e'"
  then show "create_feature_group env p =
              Inl (Exception (py ''Error creating feature group: '' @ str_exn e'))"
    by (simp add: create_feature_group_decode_fails)
next
  assume "open_read env p = Inr bs \<and> read_text env bs = Inr t
        \<and> GeoJson_check env t = Some e' \<and> \<not> is_FileNotFoundError e'"
  then show "create_feature_group env p =
              Inl (Exception (py ''Error creating feature group: '' @ str_exn e'))"
    by (simp add: create_feature_group_GeoJson_fails)
next
  assume "read_excel env d = Inr data \<and> create_feature_group env p = Inl e''"
  then show "create_iit_map env d p out w = (Inl e'', w)"
    by (simp add: create_iit_map_boundary_fails load_iit_data_ok)
qed

section \<open>Texts that quoting leaves unchanged; the whole run\<close>

lemma utf8_ascii: "list_all (\<lambda>c. c < 128) s \<Longrightarrow> concat (map utf8_char s) = s"
  by (induction s) (simp_all add: utf8_char_def)

lemma quote_unreserved:
  assumes "list_all (\<lambda>c. c < 128 \<and> (c \<in> always_safe \<or> c \<in> set safe)) s"
  shows "quote s safe = Inr s"
proof -
  from assms have a: "list_all (\<lambda>c. c < 128) s"
    by (simp add: list_all_iff)
  from assms have "concat (map (quoter safe) s) = s"
    by (induction s) (auto simp: quoter_def)
  with a show ?thesis
    by (simp add: quote_encodable encodable_ascii utf8_ascii)
qed

lemma digit_always_safe: "d < 10 \<Longrightarrow> 48 + d < (128::nat) \<and> 48 + d \<in> always_safe"
proof -
  assume "d < 10"
  then have "d \<in> {0, 1, 2, 3, 4, 5, 6, 7, 8, 9}" by auto
  then show ?thesis by (auto simp: always_safe_def py_def)
qed

lemma str_nat_unreserved: "list_all (\<lambda>c. c < 128 \<and> (c \<in> always_safe \<or> c \<in> set safe)) (str_nat n)"
proof (induction n rule: str_nat.induct)
  case (1 n)
  show ?case
  proof (cases "n < 10")
    case True
    then show ?thesis
      using digit_always_safe[of n] by (subst str_nat.simps) simp
  next
    case False
    have "n mod 10 < 10" by simp
    then have "48 + n mod 10 < 128 \<and> 48 + n mod 10 \<in> always_safe"
      by (rule digit_always_safe)
    with False 1 show ?thesis
      by (subst str_nat.simps) simp
  qed
qed

lemma str_int_unreserved: "list_all (\<lambda>c. c < 128 \<and> (c \<in> always_safe \<or> c \<in> set safe)) (str_int i)"
proof -
  have "(45::nat) \<in> always_safe" by (simp add: always_safe_def py_def)
  then show ?thesis
    by (simp add: str_int_def str_nat_unreserved)
qed

lemma quote_str_int: "quote (str_int i) safe = Inr (str_int i)"
  by (rule quote_unreserved) (rule str_int_unreserved)

lemma quote_words:
  "quote (py ''None'') safe = Inr (py ''None'')"
  "quote (py ''True'') safe = Inr (py ''True'')"
  "quote (py ''False'') safe = Inr (py ''False'')"
  "quote (py ''nan'') safe = Inr (py ''nan'')"
  by (rule quote_unreserved, simp add: py_def always_safe_def)+


lemma add_iit_markers_Inr:
  assumes "add_iit_markers env fg data w = (Inr u, fg', w')"
  shows "fg' = fg\<lparr>children := children fg @ map MarkerChild (composed env (iterrows data))\<rparr>
         \<and> w' = w\<lparr>stdout := stdout w @ diagnostics env (iterrows data)\<rparr>"
proof (cases "py ''IIT College'' \<in> set (columns data)")
  case True
  with assms show ?thesis by (simp add: add_iit_markers_returns)
next
  case False
  then have none: "\<forall>row\<in>set (iterrows data). py ''IIT College'' \<notin> set (index row)"
    by (simp add: index_iterrows)
  show ?thesis
  proof (cases "iterrows data")
    case Nil
    with assms show ?thesis
      by (simp add: add_iit_markers_def composed_def diagnostics_def map_filter_simps)
  next
    case (Cons row rs)
    with none have "py ''IIT College'' \<notin> set (index row)" by simp
    then have "add_iit_markers_loop env (row # rs) fg w =
                 (Inl (KeyError (py ''IIT College'')), fg, w)"
      by (rule loop_college_absent)
    with Cons assms show ?thesis by (simp add: add_iit_markers_def)
  qed
qed

lemma save_Inr:
  "save env m out w = (Inr u, w') \<Longrightarrow> w' = w\<lparr>written := written w @ [(out, m)]\<rparr>"
  by (auto simp: save_def split: option.splits)

lemma create_iit_map_Inr:
  assumes "create_iit_map env d g out w = (Inr u, w')"
  shows "\<exists>data bs t.
           read_excel env d = Inr data
           \<and> open_read env g = Inr bs \<and> read_text env bs = Inr t
           \<and> GeoJson_check env t = None
           \<and> w' = w\<lparr>stdout := stdout w @ diagnostics env (iterrows data),
                    written := written w @
                      [(out, \<lparr>map_location = [POther (py ''20.5937''), POther (py ''78.9629'')],
                              zoom_start = 5, tiles = py ''CartoDB positron'',
                              root_html = [css],
                              map_children =
                                [\<lparr>fg_name = py ''map'',
                                  children = GeoJsonChild \<lparr>geo_data = t\<rparr>
                                    # map MarkerChild (composed env (iterrows data))\<rparr>]\<rparr>)]\<rparr>"
proof -
  from assms obtain data where l: "load_iit_data env d = Inr data"
    by (cases "load_iit_data env d") (simp_all add: create_iit_map_def)
  from assms l obtain fg where f: "create_feature_group env g = Inr fg"
    by (cases "create_feature_group env g") (simp_all add: create_iit_map_def)
  from create_feature_group_Inr[OF f] obtain bs t where
    o: "open_read env g = Inr bs" and t: "read_text env bs = Inr t"
    and c: "GeoJson_check env t = None"
    and fg: "fg = \<lparr>fg_name = py ''map'', children = [GeoJsonChild \<lparr>geo_data = t\<rparr>]\<rparr>"
    by blast
  obtain r fg' w1 where a: "add_iit_markers env fg data w = (r, fg', w1)"
    by (cases "add_iit_markers env fg data w") auto
  from assms l f a obtain u' where r: "r = Inr u'"
    by (cases r) (simp_all add: create_iit_map_def)
  from add_iit_markers_Inr[OF a[unfolded r]] have
    fg': "fg' = fg\<lparr>children := children fg @ map MarkerChild (composed env (iterrows data))\<rparr>"
    and w1: "w1 = w\<lparr>stdout := stdout w @ diagnostics env (iterrows data)\<rparr>"
    by simp_all
  from assms l f a r have
    "save env (\<lparr>map_location = [POther (py ''20.5937''), POther (py ''78.9629'')],
                zoom_start = 5, tiles = py ''CartoDB positron'', root_html = [css],
                map_children = [fg']\<rparr>) out w1 = (Inr u, w')"
    by (simp add: create_iit_map_def)
  from save_Inr[OF this] fg fg' w1 have
    "w' = w\<lparr>stdout := stdout w @ diagnostics env (iterrows data),
            written := written w @
              [(out, \<lparr>map_location = [POther (py ''20.5937''), POther (py ''78.9629'')],
                      zoom_start = 5, tiles = py ''CartoDB positron'',
                      root_html = [css],
                      map_children =
                        [\<lparr>fg_name = py ''map'',
                          children = GeoJsonChild \<lparr>geo_data = t\<rparr>
                            # map MarkerChild (composed env (iterrows data))\<rparr>]\<rparr>)]\<rparr>"
    by simp
  with load_iit_data_Inr[OF l] o t c show ?thesis by blast
qed

lemma create_popup_html_no_image:
  assumes "py ''Image'' \<notin> set (index row)"
  shows "create_popup_html row = Inl (KeyError (py ''Image''))"
proof -
  have "getitem row (py ''Image'') = Inl (KeyError (py ''Image''))"
    using assms by (simp add: getitem_Inl_iff)
  then show ?thesis by (simp add: create_popup_html_def)
qed

lemma create_popup_html_not_encodable:
  assumes "getitem row (py ''Image'') = Inr img" and "\<not> encodable (str img)"
  shows "\<exists>c a b. create_popup_html row = Inl (UnicodeEncodeError c a b)"
proof -
  from quote_not_encodable[OF assms(2), of "py '':/?=''"] obtain c a b where
    "quote (str img) (py '':/?='') = Inl (UnicodeEncodeError c a b)"
    by blast
  with assms(1) have "create_popup_html row = Inl (UnicodeEncodeError c a b)"
    by (simp add: create_popup_html_def)
  then show ?thesis by blast
qed

lemma compose_marker_popup_fails:
  "create_popup_html row = Inl e \<Longrightarrow> compose_marker env row = Inl e"
  by (simp add: compose_marker_def)

lemma loop_skips:
  assumes "compose_marker env row = Inl e"
    and "getitem row (py ''IIT College'') = Inr college"
  shows "add_iit_markers_loop env (row # rs) fg w =
           add_iit_markers_loop env rs fg
             (print (py ''Error adding marker for '' @ str college @ py '': '' @ str_exn e) w)"
  using assms by simp

lemma create_popup_html_ok:
  assumes "getitem row (py ''Image'') = Inr img" and "encodable (str img)"
    and "py ''IIT College'' \<in> set (index row)" and "py ''IIT Ranking'' \<in> set (index row)"
    and "py ''NIRF Score'' \<in> set (index row)"
  shows "\<exists>url before. quote (str img) (py '':/?='') = Inr url
           \<and> create_popup_html row = Inr (before @ popup_img @ url @ popup_close)"
proof -
  obtain college where g1: "getitem row (py ''IIT College'') = Inr college"
    using getitem_present[OF assms(3)] by auto
  obtain ranking where g2: "getitem row (py ''IIT Ranking'') = Inr ranking"
    using getitem_present[OF assms(4)] by auto
  obtain score where g3: "getitem row (py ''NIRF Score'') = Inr score"
    using getitem_present[OF assms(5)] by auto
  note g = g1 g2 g3
  from assms(2) obtain url where u: "quote (str img) (py '':/?='') = Inr url"
    by (simp add: quote_encodable)
  with assms(1) g have "create_popup_html row =
      Inr ((popup_open @ str college @ popup_rank @ str ranking @ popup_score @ str score)
           @ popup_img @ url @ popup_close)"
    by (simp add: create_popup_html_def)
  with u show ?thesis by blast
qed

lemma diagnostics_sample:
  "diagnostics sample_env [madras_row, delhi_row, bombay_row] = [delhi_diagnostic]"
proof -
  have "py ''Error adding marker for '' @ py ''IIT Delhi'' @ py '': ''
          @ py ''Location values cannot contain NaNs.'' = delhi_diagnostic"
    by (simp add: delhi_diagnostic_def py_def)
  then show ?thesis
    by (simp add: diagnostics_def map_filter_simps compose_madras compose_delhi compose_bombay
        getitem_delhi)
qed

lemma sample_run:
  "create_iit_map sample_env data_file geojson_file output_file w0 = (Inr (), sample_result)"
proof -
  have l: "load_iit_data sample_env data_file = Inr sample_data"
    by (simp add: load_iit_data_def sample_env_def)
  have c: "py ''IIT College'' \<in> set (columns sample_data)"
    by (simp add: sample_data_def sample_columns_def)
  have a: "add_iit_markers sample_env sample_fg sample_data w0 =
      (Inr (),
       \<lparr>fg_name = py ''map'',
        children = [GeoJsonChild \<lparr>geo_data = sample_boundary\<rparr>, MarkerChild madras_marker,
                    MarkerChild bombay_marker]\<rparr>,
       \<lparr>stdout = [delhi_diagnostic], written = []\<rparr>)"
    by (simp add: add_iit_markers_returns[OF c] iterrows_sample composed_sample
        diagnostics_sample sample_fg_def w0_def)
  have s: "\<And>m w. save sample_env m output_file w =
             (Inr (), w\<lparr>written := written w @ [(output_file, m)]\<rparr>)"
    by (simp add: save_def sample_env_def)
  show ?thesis
    by (simp add: create_iit_map_def l sample_feature_group a s sample_result_def sample_map_def)
qed

section \<open>Claims\<close>

text \<open>
  C1. The claim: composing markers never aborts the run; a record whose marker cannot be
  composed is skipped with a diagnostic naming it, also when records miss fields such as
  the name column. The code does not do this for a table without the column
  \<open>IIT College\<close>: composing the first row raises \<open>KeyError\<close>, the \<open>except\<close> clause
  formats its diagnostic from \<open>row['IIT College']\<close>, and that lookup raises again, outside
  any handler of the loop. The exception leaves \<open>add_iit_markers\<close> and
  \<open>create_iit_map\<close>; \<open>main\<close> reports a failed run and no file is written.
\<close>

theorem add_iit_markers_aborts_without_name_column:
  "add_iit_markers env fg no_name_data w = (Inl (KeyError (py ''IIT College'')), fg, w)
   \<and> main no_name_env w0 =
       (Inr (),
        \<lparr>stdout = [py ''Error creating map: '' @ [39] @ py ''IIT College'' @ [39],
                   py ''\<newline>Please ensure:'',
                   py ''1. Your Excel file contains all required columns'',
                   py ''2. Image URLs are valid and accessible'',
                   py ''3. GeoJSON file exists and is valid''],
         written = []\<rparr>)"
proof -
  have loop: "\<And>env fg w. add_iit_markers env fg no_name_data w =
                 (Inl (KeyError (py ''IIT College'')), fg, w)"
    by (simp add: add_iit_markers_def no_name_data_def iterrows_def loop_college_absent
        py_eq_iff del: add_iit_markers_loop.simps)
  have load: "load_iit_data no_name_env data_file = Inr no_name_data"
    by (simp add: load_iit_data_def no_name_env_def)
  have "read_text no_name_env sample_boundary_file = read_text sample_env sample_boundary_file"
    by (rule read_text_decoder) (simp add: no_name_env_def)
  then have "open_read no_name_env geojson_file = Inr sample_boundary_file"
    and "read_text no_name_env sample_boundary_file = Inr sample_boundary"
    and "GeoJson_check no_name_env sample_boundary = None"
    by (simp_all add: sample_read_text) (simp_all add: no_name_env_def sample_env_def)
  then have fg: "create_feature_group no_name_env geojson_file =
      Inr \<lparr>fg_name = py ''map'', children = [GeoJsonChild \<lparr>geo_data = sample_boundary\<rparr>]\<rparr>"
    by (rule create_feature_group_ok)
  have "main no_name_env w0 =
       (Inr (),
        \<lparr>stdout = [py ''Error creating map: '' @ [39] @ py ''IIT College'' @ [39],
                   py ''\<newline>Please ensure:'',
                   py ''1. Your Excel file contains all required columns'',
                   py ''2. Image URLs are valid and accessible'',
                   py ''3. GeoJSON file exists and is valid''],
         written = []\<rparr>)"
    by (simp add: main_def create_iit_map_def load fg loop print_def w0_def)
  with loop show ?thesis by simp
qed

text \<open>
  C2. Whenever a popup is built, its HTML is the template with the quoted image reference
  between \<open><img src="\<close> (the end of \<open>popup_img\<close>) and the closing quote (the start of
  \<open>popup_close\<close>). Quoting leaves each of \<open>:\<close>, \<open>/\<close>, \<open>?\<close>, \<open>=\<close> as it is, wherever it
  stands, and replaces an ASCII character that is neither one of them nor a letter, a digit
  or one of \<open>_.-~\<close> by \<open>%\<close> and its two hexadecimal digits. For the image reference
  \<open>http://x/a b.png\<close> the popup contains \<open>http://x/a%20b.png\<close>.
\<close>

theorem popup_image_percent_encoded:
  "(create_popup_html row = Inr h \<longrightarrow>
      (\<exists>img url before. getitem row (py ''Image'') = Inr img
          \<and> quote (str img) (py '':/?='') = Inr url
          \<and> h = before @ popup_img @ url @ popup_close))
   \<and> (c \<in> set (py '':/?='') \<and> quote (a @ [c] @ b) (py '':/?='') = Inr u \<longrightarrow>
      (\<exists>ua ub. quote a (py '':/?='') = Inr ua \<and> quote b (py '':/?='') = Inr ub
          \<and> u = ua @ [c] @ ub))
   \<and> (d < 128 \<and> d \<notin> always_safe \<and> d \<notin> set (py '':/?='')
        \<and> quote (a' @ [d] @ b') (py '':/?='') = Inr u' \<longrightarrow>
      (\<exists>ua ub. quote a' (py '':/?='') = Inr ua \<and> quote b' (py '':/?='') = Inr ub
          \<and> u' = ua @ [37, hex_upper (d div 16), hex_upper (d mod 16)] @ ub))
   \<and> (getitem row' (py ''Image'') = Inr (PStr (py ''http://x/a b.png''))
        \<and> create_popup_html row' = Inr h' \<longrightarrow>
      (\<exists>before. h' = before @ popup_img @ py ''http://x/a%20b.png'' @ popup_close))"
proof (intro conjI impI)
  assume "create_popup_html row = Inr h"
  from create_popup_html_Inr[OF this] obtain img url college ranking score where
    "getitem row (py ''Image'') = Inr img" "quote (str img) (py '':/?='') = Inr url"
    "h = (popup_open @ str college @ popup_rank @ str ranking @ popup_score @ str score)
         @ popup_img @ url @ popup_close"
    by auto
  then show "\<exists>img url before. getitem row (py ''Image'') = Inr img
          \<and> quote (str img) (py '':/?='') = Inr url
          \<and> h = before @ popup_img @ url @ popup_close"
    by blast
next
  assume "c \<in> set (py '':/?='') \<and> quote (a @ [c] @ b) (py '':/?='') = Inr u"
  then show "\<exists>ua ub. quote a (py '':/?='') = Inr ua \<and> quote b (py '':/?='') = Inr ub
          \<and> u = ua @ [c] @ ub"
    using quote_keeps_safe by blast
next
  assume "d < 128 \<and> d \<notin> always_safe \<and> d \<notin> set (py '':/?='')
        \<and> quote (a' @ [d] @ b') (py '':/?='') = Inr u'"
  then show "\<exists>ua ub. quote a' (py '':/?='') = Inr ua \<and> quote b' (py '':/?='') = Inr ub
          \<and> u' = ua @ [37, hex_upper (d div 16), hex_upper (d mod 16)] @ ub"
    using quote_escapes[of d "py '':/?=''" a' b' u'] by blast
next
  assume A: "getitem row' (py ''Image'') = Inr (PStr (py ''http://x/a b.png''))
        \<and> create_popup_html row' = Inr h'"
  from create_popup_html_Inr[of row' h'] A obtain img url college ranking score where
    "getitem row' (py ''Image'') = Inr img" "quote (str img) (py '':/?='') = Inr url"
    "h' = (popup_open @ str college @ popup_rank @ str ranking @ popup_score @ str score)
         @ popup_img @ url @ popup_close"
    by auto
  with A have "h' = (popup_open @ str college @ popup_rank @ str ranking @ popup_score @ str score)
         @ popup_img @ py ''http://x/a%20b.png'' @ popup_close"
    by (simp add: quote_example)
  then show "\<exists>before. h' = before @ popup_img @ py ''http://x/a%20b.png'' @ popup_close"
    by blast
qed

theorem popup_image_percent_encoded_witness:
  "create_popup_html madras_row = Inr madras_html
   \<and> getitem madras_row (py ''Image'') = Inr (PStr (py ''http://x/a b.png''))
   \<and> (\<exists>before. madras_html = before @ popup_img @ py ''http://x/a%20b.png'' @ popup_close)
   \<and> 58 \<in> set (py '':/?='') \<and> quote (py ''http'' @ [58] @ py ''//x'') (py '':/?='') = Inr (py ''http://x'')
   \<and> (\<exists>ua ub. quote (py ''http'') (py '':/?='') = Inr ua \<and> quote (py ''//x'') (py '':/?='') = Inr ub
          \<and> py ''http://x'' = ua @ [58] @ ub)
   \<and> (32::nat) < 128 \<and> 32 \<notin> always_safe \<and> 32 \<notin> set (py '':/?='')
   \<and> quote (py ''a'' @ [32] @ py ''b'') (py '':/?='') = Inr (py ''a%20b'')
   \<and> (\<exists>ua ub. quote (py ''a'') (py '':/?='') = Inr ua \<and> quote (py ''b'') (py '':/?='') = Inr ub
          \<and> py ''a%20b'' = ua @ [37, hex_upper (32 div 16), hex_upper (32 mod 16)] @ ub)"
proof -
  have q1: "quote (py ''http'' @ [58] @ py ''//x'') (py '':/?='') = Inr (py ''http://x'')"
    by (simp add: py_def quote_def encode_utf8_def is_surrogate_def utf8_char_def quoter_def
      always_safe_def hex_upper_def)
  have q2: "quote (py ''a'' @ [32] @ py ''b'') (py '':/?='') = Inr (py ''a%20b'')"
    by (simp add: py_def quote_def encode_utf8_def is_surrogate_def utf8_char_def quoter_def
      always_safe_def hex_upper_def)
  have s1: "58 \<in> set (py '':/?='')" by (simp add: py_def)
  have s2: "(32::nat) < 128 \<and> 32 \<notin> always_safe \<and> 32 \<notin> set (py '':/?='')"
    by (simp add: py_def always_safe_def)
  note T = popup_image_percent_encoded[of madras_row madras_html 58 "py ''http''" "py ''//x''"
      "py ''http://x''" 32 "py ''a''" "py ''b''" "py ''a%20b''" madras_row madras_html]
  show ?thesis
    using T popup_madras getitem_madras(1) q1 q2 s1 s2 by blast
qed

text \<open>
  C3. For every table, \<open>add_iit_markers\<close> adds at most one marker per row to the feature
  group, whether it returns or raises; when every row has the six columns, an image
  reference that can be encoded and coordinates the map library accepts, it returns and
  adds exactly one marker per row.
\<close>

theorem marker_count_bounded:
  "length (markers (fst (snd (add_iit_markers env fg data w))))
     \<le> length (markers fg) + length (rows data)
   \<and> ((\<forall>row\<in>set (iterrows data). valid_row env row) \<longrightarrow>
        fst (add_iit_markers env fg data w) = Inr ()
        \<and> length (markers (fst (snd (add_iit_markers env fg data w))))
            = length (markers fg) + length (rows data))"
proof (intro conjI impI)
  show "length (markers (fst (snd (add_iit_markers env fg data w))))
          \<le> length (markers fg) + length (rows data)"
    using length_composed_le[of env "iterrows data"]
    by (simp add: add_iit_markers_markers length_iterrows)
next
  assume v: "\<forall>row\<in>set (iterrows data). valid_row env row"
  then show "length (markers (fst (snd (add_iit_markers env fg data w))))
            = length (markers fg) + length (rows data)"
    by (simp add: add_iit_markers_markers composed_all_valid length_iterrows)
  from v have "\<forall>row\<in>set (iterrows data). py ''IIT College'' \<in> set (index row)"
    using valid_row_college by blast
  then show "fst (add_iit_markers env fg data w) = Inr ()"
    by (simp add: add_iit_markers_def loop_college_present)
qed

theorem marker_count_bounded_witness:
  "iterrows good_data = [madras_row, bombay_row]
   \<and> valid_row sample_env madras_row \<and> valid_row sample_env bombay_row
   \<and> fst (add_iit_markers sample_env sample_fg good_data w0) = Inr ()
   \<and> length (markers (fst (snd (add_iit_markers sample_env sample_fg good_data w0)))) = 2
   \<and> length (markers sample_fg) + length (rows good_data) = 2"
proof -
  have v: "\<forall>row\<in>set (iterrows good_data). valid_row sample_env row"
    by (simp add: iterrows_good valid_madras valid_bombay)
  have n: "length (markers sample_fg) + length (rows good_data) = 2"
    by (simp add: markers_def map_filter_simps sample_fg_def good_data_def)
  from marker_count_bounded[of sample_env sample_fg good_data w0] v n
  show ?thesis by (simp add: iterrows_good valid_madras valid_bombay)
qed

text \<open>
  C4. For every table, the markers added to the feature group are those of the rows that
  could be composed, in the order of the rows, the other rows left out; and the location
  of a composed marker is the list of the row's \<open>Latitude\<close> and \<open>Longitude\<close> values, as
  they are.
\<close>

theorem markers_follow_row_order:
  "children (fst (snd (add_iit_markers env fg data w))) =
     children fg @ map MarkerChild (composed env (iterrows data))
   \<and> (\<forall>row m. compose_marker env row = Inr m \<longrightarrow>
         (\<exists>lat lon. getitem row (py ''Latitude'') = Inr lat
            \<and> getitem row (py ''Longitude'') = Inr lon \<and> location m = [lat, lon]))"
  using add_iit_markers_children compose_marker_location by blast

theorem markers_follow_row_order_witness:
  "compose_marker sample_env madras_row = Inr madras_marker
   \<and> getitem madras_row (py ''Latitude'') = Inr (POther (py ''12.9915''))
   \<and> getitem madras_row (py ''Longitude'') = Inr (POther (py ''80.2337''))
   \<and> location madras_marker = [POther (py ''12.9915''), POther (py ''80.2337'')]
   \<and> children (fst (snd (add_iit_markers sample_env sample_fg sample_data w0))) =
       [GeoJsonChild \<lparr>geo_data = sample_boundary\<rparr>, MarkerChild madras_marker,
        MarkerChild bombay_marker]"
proof -
  note T = markers_follow_row_order[of sample_env sample_fg sample_data w0]
  from T have "\<exists>lat lon. getitem madras_row (py ''Latitude'') = Inr lat
            \<and> getitem madras_row (py ''Longitude'') = Inr lon
            \<and> location madras_marker = [lat, lon]"
    using compose_madras by blast
  then have "location madras_marker = [POther (py ''12.9915''), POther (py ''80.2337'')]"
    by (auto simp: getitem_madras)
  moreover from T have
    "children (fst (snd (add_iit_markers sample_env sample_fg sample_data w0))) =
       [GeoJsonChild \<lparr>geo_data = sample_boundary\<rparr>, MarkerChild madras_marker,
        MarkerChild bombay_marker]"
    by (simp add: iterrows_sample composed_sample sample_fg_def)
  ultimately show ?thesis
    by (simp add: compose_madras getitem_madras)
qed

text \<open>
  C5. When \<open>read_excel\<close> raises \<open>FileNotFoundError\<close> (the path does not resolve to a file),
  the loader raises a \<open>FileNotFoundError\<close> that names the path; when it raises anything
  else, the loader raises an \<open>Exception\<close> that wraps the message. In both cases
  \<open>create_iit_map\<close> stops there with the state of the run unchanged: nothing is saved,
  and \<open>main\<close> returns with no file written.
\<close>

theorem missing_source_aborts:
  "(read_excel env d = Inl e \<and> is_FileNotFoundError e \<longrightarrow>
      load_iit_data env d = Inl (FileNotFoundError (py ''Excel file not found at: '' @ d))
      \<and> create_iit_map env d g out w =
          (Inl (FileNotFoundError (py ''Excel file not found at: '' @ d)), w))
   \<and> (read_excel env d = Inl e \<and> \<not> is_FileNotFoundError e \<longrightarrow>
      load_iit_data env d = Inl (Exception (py ''Error reading Excel file: '' @ str_exn e))
      \<and> create_iit_map env d g out w =
          (Inl (Exception (py ''Error reading Excel file: '' @ str_exn e)), w))
   \<and> (read_excel env data_file = Inl e \<longrightarrow>
      fst (main env w) = Inr () \<and> written (snd (main env w)) = written w)"
proof (intro conjI impI)
  assume A: "read_excel env d = Inl e \<and> is_FileNotFoundError e"
  then show l: "load_iit_data env d = Inl (FileNotFoundError (py ''Excel file not found at: '' @ d))"
    by (simp add: load_iit_data_fails)
  then show "create_iit_map env d g out w =
          (Inl (FileNotFoundError (py ''Excel file not found at: '' @ d)), w)"
    by (rule create_iit_map_load_fails)
next
  assume A: "read_excel env d = Inl e \<and> \<not> is_FileNotFoundError e"
  then show l: "load_iit_data env d = Inl (Exception (py ''Error reading Excel file: '' @ str_exn e))"
    by (simp add: load_iit_data_fails)
  then show "create_iit_map env d g out w =
          (Inl (Exception (py ''Error reading Excel file: '' @ str_exn e)), w)"
    by (rule create_iit_map_load_fails)
next
  assume A: "read_excel env data_file = Inl e"
  show "fst (main env w) = Inr ()" by (rule main_returns)
  from A obtain e' where "load_iit_data env data_file = Inl e'"
    by (cases "is_FileNotFoundError e") (simp_all add: load_iit_data_fails)
  then have "create_iit_map env data_file geojson_file output_file w = (Inl e', w)"
    by (rule create_iit_map_load_fails)
  then show "written (snd (main env w)) = written w"
    by (simp add: main_failure)
qed

theorem missing_source_aborts_witness:
  "read_excel missing_source_env data_file = Inl (no_such_file data_file)
   \<and> is_FileNotFoundError (no_such_file data_file)
   \<and> create_iit_map missing_source_env data_file geojson_file output_file w0 =
       (Inl (FileNotFoundError (py ''Excel file not found at: '' @ data_file)), w0)
   \<and> written (snd (main missing_source_env w0)) = []
   \<and> read_excel corrupt_source_env data_file =
       Inl (OtherError (py ''BadZipFile'') (py ''File is not a zip file''))
   \<and> \<not> is_FileNotFoundError (OtherError (py ''BadZipFile'') (py ''File is not a zip file''))
   \<and> create_iit_map corrupt_source_env data_file geojson_file output_file w0 =
       (Inl (Exception (py ''Error reading Excel file: '' @ py ''File is not a zip file'')), w0)"
proof -
  have m: "read_excel missing_source_env data_file = Inl (no_such_file data_file)"
    by (simp add: missing_source_env_def)
  have f: "is_FileNotFoundError (no_such_file data_file)"
    by (simp add: no_such_file_def)
  have c: "read_excel corrupt_source_env data_file =
       Inl (OtherError (py ''BadZipFile'') (py ''File is not a zip file''))"
    by (simp add: corrupt_source_env_def)
  note T1 = missing_source_aborts[of missing_source_env data_file "no_such_file data_file"
      geojson_file output_file w0]
  note T2 = missing_source_aborts[of corrupt_source_env data_file
      "OtherError (py ''BadZipFile'') (py ''File is not a zip file'')" geojson_file output_file w0]
  from T1 m f have
    "create_iit_map missing_source_env data_file geojson_file output_file w0 =
       (Inl (FileNotFoundError (py ''Excel file not found at: '' @ data_file)), w0)"
    "written (snd (main missing_source_env w0)) = []"
    by (simp_all add: w0_def)
  moreover from T2 c have
    "create_iit_map corrupt_source_env data_file geojson_file output_file w0 =
       (Inl (Exception (py ''Error reading Excel file: '' @ py ''File is not a zip file'')), w0)"
    by simp
  ultimately show ?thesis using m f c by simp
qed

text \<open>
  C6. The claim: a boundary file that exists but is not valid geometry makes the builder
  fail with a wrapped parse error. The \<open>try\<close> block of \<open>create_feature_group\<close> also covers
  the call of \<open>folium.GeoJson\<close>, and its first \<open>except\<close> clause turns every
  \<open>FileNotFoundError\<close> into "GeoJSON file not found". A boundary file that holds the text
  \<open>hello\<close> exists and is read; the constructor takes the text for a file name, fails to
  open it, and the builder reports the boundary file itself as not found.
\<close>

theorem boundary_text_reported_missing:
  "open_read text_boundary_env geojson_file = Inr (py ''hello'')
   \<and> GeoJson text_boundary_env (py ''hello'') = Inl (no_such_file (py ''hello''))
   \<and> create_feature_group text_boundary_env geojson_file =
       Inl (FileNotFoundError (py ''GeoJSON file not found at: '' @ py ''india_states.json''))
   \<and> main text_boundary_env w0 =
       (Inr (),
        \<lparr>stdout = failure_report
                    (FileNotFoundError (py ''GeoJSON file not found at: india_states.json'')),
         written = []\<rparr>)"
proof -
  have o: "open_read text_boundary_env geojson_file = Inr (py ''hello'')"
    by (simp add: text_boundary_env_def)
  have g: "GeoJson text_boundary_env (py ''hello'') = Inl (no_such_file (py ''hello''))"
    by (simp add: GeoJson_def text_boundary_env_def py_def)
  have n: "py ''GeoJSON file not found at: '' @ geojson_file
             = py ''GeoJSON file not found at: india_states.json''"
    by (simp add: geojson_file_def py_def)
  have l: "load_iit_data text_boundary_env data_file = Inr sample_data"
    by (simp add: load_iit_data_def text_boundary_env_def sample_env_def)
  have "create_iit_map text_boundary_env data_file geojson_file output_file w0 =
          (Inl (FileNotFoundError (py ''GeoJSON file not found at: '' @ geojson_file)), w0)"
    using l text_boundary_group by (rule create_iit_map_boundary_fails)
  then have "main text_boundary_env w0 =
       (Inr (),
        \<lparr>stdout = failure_report
                    (FileNotFoundError (py ''GeoJSON file not found at: india_states.json'')),
         written = []\<rparr>)"
    by (simp add: main_failure n w0_def)
  with o g text_boundary_group n show ?thesis
    by (simp add: geojson_file_def py_def)
qed

text \<open>
  C8. \<open>main\<close> always returns normally, so the process ends with status 0; when the
  pipeline raises, \<open>main\<close> prints the failure message with the text of the exception and
  the three-item checklist after whatever the pipeline had printed.
\<close>

theorem main_never_raises:
  "fst (main env w) = Inr () \<and> exit_status env w = 0
   \<and> (create_iit_map env data_file geojson_file output_file w = (Inl e, w') \<longrightarrow>
        snd (main env w) = w'\<lparr>stdout := stdout w' @ failure_report e\<rparr>)"
proof (intro conjI impI)
  show "fst (main env w) = Inr ()" by (rule main_returns)
  then show "exit_status env w = 0" by (simp add: exit_status_def)
next
  assume "create_iit_map env data_file geojson_file output_file w = (Inl e, w')"
  then show "snd (main env w) = w'\<lparr>stdout := stdout w' @ failure_report e\<rparr>"
    by (simp add: main_failure)
qed

theorem main_never_raises_witness:
  "create_iit_map missing_boundary_env data_file geojson_file output_file w0 =
     (Inl (FileNotFoundError (py ''GeoJSON file not found at: '' @ geojson_file)), w0)
   \<and> fst (main missing_boundary_env w0) = Inr ()
   \<and> exit_status missing_boundary_env w0 = 0
   \<and> snd (main missing_boundary_env w0) =
       \<lparr>stdout = [py ''Error creating map: GeoJSON file not found at: india_states.json'',
                  py ''\<newline>Please ensure:'',
                  py ''1. Your Excel file contains all required columns'',
                  py ''2. Image URLs are valid and accessible'',
                  py ''3. GeoJSON file exists and is valid''],
        written = []\<rparr>"
proof -
  have l: "load_iit_data missing_boundary_env data_file = Inr sample_data"
    by (simp add: load_iit_data_def missing_boundary_env_def sample_env_def)
  have o: "open_read missing_boundary_env geojson_file = Inl (no_such_file geojson_file)"
    by (simp add: missing_boundary_env_def)
  have g: "create_feature_group missing_boundary_env geojson_file =
             Inl (FileNotFoundError (py ''GeoJSON file not found at: '' @ geojson_file))"
    using create_feature_group_open_fails[OF o] by (simp add: no_such_file_def)
  have c: "create_iit_map missing_boundary_env data_file geojson_file output_file w0 =
     (Inl (FileNotFoundError (py ''GeoJSON file not found at: '' @ geojson_file)), w0)"
    using l g by (rule create_iit_map_boundary_fails)
  have n: "py ''Error creating map: '' @ py ''GeoJSON file not found at: '' @ geojson_file
             = py ''Error creating map: GeoJSON file not found at: india_states.json''"
    by (simp add: geojson_file_def py_def)
  from main_never_raises[of missing_boundary_env w0
      "FileNotFoundError (py ''GeoJSON file not found at: '' @ geojson_file)" w0] c
  show ?thesis
    by (simp add: failure_report_def w0_def n)
qed

text \<open>
  C9. The claim: for a record with a name, a rank, a score and coordinates, building the
  popup never raises, whatever the value or type of the image field. Two records show
  that it can raise: without a column \<open>Image\<close> the lookup \<open>row['Image']\<close> raises
  \<open>KeyError\<close>, and an image text with a surrogate code point makes \<open>quote\<close> raise
  \<open>UnicodeEncodeError\<close>.
\<close>

theorem popup_raises_for_some_images:
  "getitem no_image_row (py ''IIT College'') = Inr (PStr (py ''IIT Madras''))
   \<and> getitem no_image_row (py ''IIT Ranking'') = Inr (PInt 1)
   \<and> getitem no_image_row (py ''NIRF Score'') = Inr (POther (py ''89.46''))
   \<and> getitem no_image_row (py ''Latitude'') = Inr (POther (py ''12.9915''))
   \<and> getitem no_image_row (py ''Longitude'') = Inr (POther (py ''80.2337''))
   \<and> create_popup_html no_image_row = Inl (KeyError (py ''Image''))
   \<and> getitem surrogate_row (py ''IIT College'') = Inr (PStr (py ''IIT Madras''))
   \<and> getitem surrogate_row (py ''IIT Ranking'') = Inr (PInt 1)
   \<and> getitem surrogate_row (py ''NIRF Score'') = Inr (POther (py ''89.46''))
   \<and> getitem surrogate_row (py ''Latitude'') = Inr (POther (py ''12.9915''))
   \<and> getitem surrogate_row (py ''Longitude'') = Inr (POther (py ''80.2337''))
   \<and> getitem surrogate_row (py ''Image'') = Inr (PStr [55296])
   \<and> create_popup_html surrogate_row = Inl (UnicodeEncodeError 55296 0 1)"
proof -
  have a: "getitem no_image_row (py ''Image'') = Inl (KeyError (py ''Image''))"
    by (simp add: getitem_def no_image_row_def py_eq_iff)
  have b: "getitem surrogate_row (py ''Image'') = Inr (PStr [55296])"
    by (simp add: getitem_def surrogate_row_def sample_columns_def py_eq_iff)
  have c: "quote [55296] (py '':/?='') = Inl (UnicodeEncodeError 55296 0 1)"
    by (simp add: quote_def encode_utf8_def is_surrogate_def)
  have "create_popup_html no_image_row = Inl (KeyError (py ''Image''))"
    by (simp add: create_popup_html_def a)
  moreover have "create_popup_html surrogate_row = Inl (UnicodeEncodeError 55296 0 1)"
    by (simp add: create_popup_html_def b c)
  ultimately show ?thesis
    by (simp add: b) (simp add: getitem_def no_image_row_def surrogate_row_def
        sample_columns_def py_eq_iff)
qed

text \<open>
  C9, as amended. For a record with the columns \<open>Image\<close>, \<open>IIT College\<close>,
  \<open>IIT Ranking\<close> and \<open>NIRF Score\<close>, building the popup does not raise whatever the type
  of the image value, provided its text can be encoded as UTF-8 (it has no surrogate code
  point): the popup carries the quoted text of the value as the image source. For NaN,
  \<open>None\<close>, an integer and a boolean the text can always be encoded and is left as it is:
  \<open>nan\<close>, \<open>None\<close>, the decimal numeral, \<open>True\<close> or \<open>False\<close>. A record without the column
  \<open>Image\<close> raises \<open>KeyError\<close>, and one whose image text cannot be encoded raises
  \<open>UnicodeEncodeError\<close>; a record whose popup raises and that has a name is skipped: the
  loop prints its diagnostic and goes on with the remaining records, the feature group
  unchanged.
\<close>

theorem popup_built_when_image_encodable:
  "(getitem row (py ''Image'') = Inr img \<and> encodable (str img)
      \<and> py ''IIT College'' \<in> set (index row) \<and> py ''IIT Ranking'' \<in> set (index row)
      \<and> py ''NIRF Score'' \<in> set (index row) \<longrightarrow>
        (\<exists>url before. quote (str img) (py '':/?='') = Inr url
           \<and> create_popup_html row = Inr (before @ popup_img @ url @ popup_close)))
   \<and> encodable (str PNaN) \<and> quote (str PNaN) (py '':/?='') = Inr (py ''nan'')
   \<and> encodable (str PNone) \<and> quote (str PNone) (py '':/?='') = Inr (py ''None'')
   \<and> encodable (str (PInt i)) \<and> quote (str (PInt i)) (py '':/?='') = Inr (str_int i)
   \<and> encodable (str (PBool b))
   \<and> quote (str (PBool b)) (py '':/?='') = Inr (if b then py ''True'' else py ''False'')
   \<and> (py ''Image'' \<notin> set (index row1) \<longrightarrow>
        create_popup_html row1 = Inl (KeyError (py ''Image'')))
   \<and> (getitem row2 (py ''Image'') = Inr img2 \<and> \<not> encodable (str img2) \<longrightarrow>
        (\<exists>c j k. create_popup_html row2 = Inl (UnicodeEncodeError c j k)))
   \<and> (create_popup_html row3 = Inl e \<and> getitem row3 (py ''IIT College'') = Inr college \<longrightarrow>
        add_iit_markers_loop env (row3 # rs) fg w =
          add_iit_markers_loop env rs fg
            (print (py ''Error adding marker for '' @ str college @ py '': '' @ str_exn e) w))"
proof (intro conjI impI)
  assume "getitem row (py ''Image'') = Inr img \<and> encodable (str img)
      \<and> py ''IIT College'' \<in> set (index row) \<and> py ''IIT Ranking'' \<in> set (index row)
      \<and> py ''NIRF Score'' \<in> set (index row)"
  then show "\<exists>url before. quote (str img) (py '':/?='') = Inr url
           \<and> create_popup_html row = Inr (before @ popup_img @ url @ popup_close)"
    using create_popup_html_ok[of row img] by simp
next
  show q1: "quote (str PNaN) (py '':/?='') = Inr (py ''nan'')"
    by (simp add: quote_words)
  show "encodable (str PNaN)" by (rule quote_Inr_encodable[OF q1])
  show q2: "quote (str PNone) (py '':/?='') = Inr (py ''None'')"
    by (simp add: quote_words)
  show "encodable (str PNone)" by (rule quote_Inr_encodable[OF q2])
  show q3: "quote (str (PInt i)) (py '':/?='') = Inr (str_int i)"
    by (simp add: quote_str_int)
  show "encodable (str (PInt i))" by (rule quote_Inr_encodable[OF q3])
  show q4: "quote (str (PBool b)) (py '':/?='') = Inr (if b then py ''True'' else py ''False'')"
    by (simp add: quote_words)
  show "encodable (str (PBool b))" by (rule quote_Inr_encodable[OF q4])
next
  assume "py ''Image'' \<notin> set (index row1)"
  then show "create_popup_html row1 = Inl (KeyError (py ''Image''))"
    by (rule create_popup_html_no_image)
next
  assume "getitem row2 (py ''Image'') = Inr img2 \<and> \<not> encodable (str img2)"
  then show "\<exists>c j k. create_popup_html row2 = Inl (UnicodeEncodeError c j k)"
    using create_popup_html_not_encodable[of row2 img2] by simp
next
  assume A: "create_popup_html row3 = Inl e \<and> getitem row3 (py ''IIT College'') = Inr college"
  then have "compose_marker env row3 = Inl e"
    by (simp add: compose_marker_popup_fails)
  with A show "add_iit_markers_loop env (row3 # rs) fg w =
          add_iit_markers_loop env rs fg
            (print (py ''Error adding marker for '' @ str college @ py '': '' @ str_exn e) w)"
    by (simp add: loop_skips)
qed

theorem popup_built_when_image_encodable_witness:
  "getitem bombay_row (py ''Image'') = Inr PNaN \<and> encodable (str PNaN)
   \<and> py ''IIT College'' \<in> set (index bombay_row) \<and> py ''IIT Ranking'' \<in> set (index bombay_row)
   \<and> py ''NIRF Score'' \<in> set (index bombay_row)
   \<and> (\<exists>before. create_popup_html bombay_row = Inr (before @ popup_img @ py ''nan'' @ popup_close))
   \<and> py ''Image'' \<notin> set (index no_image_row)
   \<and> create_popup_html no_image_row = Inl (KeyError (py ''Image''))
   \<and> getitem surrogate_row (py ''Image'') = Inr (PStr [55296])
   \<and> \<not> encodable (str (PStr [55296]))
   \<and> (\<exists>c j k. create_popup_html surrogate_row = Inl (UnicodeEncodeError c j k))
   \<and> getitem no_image_row (py ''IIT College'') = Inr (PStr (py ''IIT Madras''))
   \<and> add_iit_markers_loop sample_env [no_image_row] sample_fg w0 =
       (Inr (), sample_fg,
        print (py ''Error adding marker for '' @ py ''IIT Madras'' @ py '': ''
               @ [39] @ py ''Image'' @ [39]) w0)"
proof -
  note T = popup_built_when_image_encodable[of bombay_row PNaN 0 True no_image_row
      surrogate_row "PStr [55296]" no_image_row "KeyError (py ''Image'')"
      "PStr (py ''IIT Madras'')" sample_env "[]" sample_fg w0]
  have c: "py ''IIT College'' \<in> set (index bombay_row) \<and> py ''IIT Ranking'' \<in> set (index bombay_row)
   \<and> py ''NIRF Score'' \<in> set (index bombay_row)"
    by (simp add: bombay_row_def sample_columns_def)
  from T have n: "encodable (str PNaN)" and q: "quote (str PNaN) (py '':/?='') = Inr (py ''nan'')"
    by (rule conjunct1[OF conjunct2], rule conjunct1[OF conjunct2[OF conjunct2]])
  from conjunct1[OF T] c n getitem_bombay(1) have
    "\<exists>url before. quote (str PNaN) (py '':/?='') = Inr url
           \<and> create_popup_html bombay_row = Inr (before @ popup_img @ url @ popup_close)"
    by (elim impE) (intro conjI, simp_all)
  then obtain url before where "quote (str PNaN) (py '':/?='') = Inr url"
    "create_popup_html bombay_row = Inr (before @ popup_img @ url @ popup_close)"
    by blast
  with q have "create_popup_html bombay_row = Inr (before @ popup_img @ py ''nan'' @ popup_close)"
    by simp
  then have p: "\<exists>before. create_popup_html bombay_row = Inr (before @ popup_img @ py ''nan'' @ popup_close)"
    by (rule exI)
  have i: "py ''Image'' \<notin> set (index no_image_row)"
    by (simp add: no_image_row_def py_eq_iff)
  with T have k: "create_popup_html no_image_row = Inl (KeyError (py ''Image''))"
    by blast
  have g: "getitem surrogate_row (py ''Image'') = Inr (PStr [55296])"
    by (simp add: getitem_def surrogate_row_def sample_columns_def py_eq_iff)
  have ne: "\<not> encodable (str (PStr [55296]))"
    by (simp add: encodable_def is_surrogate_def)
  from T g ne have u: "\<exists>c j k. create_popup_html surrogate_row = Inl (UnicodeEncodeError c j k)"
    by blast
  have m: "getitem no_image_row (py ''IIT College'') = Inr (PStr (py ''IIT Madras''))"
    by (simp add: getitem_def no_image_row_def py_eq_iff)
  from T k m have
    "add_iit_markers_loop sample_env [no_image_row] sample_fg w0 =
          add_iit_markers_loop sample_env [] sample_fg
            (print (py ''Error adding marker for '' @ str (PStr (py ''IIT Madras'')) @ py '': ''
                    @ str_exn (KeyError (py ''Image''))) w0)"
    by blast
  then have l: "add_iit_markers_loop sample_env [no_image_row] sample_fg w0 =
       (Inr (), sample_fg,
        print (py ''Error adding marker for '' @ py ''IIT Madras'' @ py '': ''
               @ [39] @ py ''Image'' @ [39]) w0)"
    by simp
  from c n getitem_bombay(1) p i k g ne u m l show ?thesis
    by (intro conjI) simp_all
qed

text \<open>
  C10. When the run succeeds, the one file written holds a map whose only child is one
  feature group named \<open>map\<close>; the children of that group are the boundary layer, made from
  the text read from the boundary file, followed by the markers composed from the table
  read from the spreadsheet; and the root of the map holds the CSS block exactly once.
\<close>

theorem map_document_structure:
  "create_iit_map env d g out w = (Inr (), w') \<longrightarrow>
     (\<exists>data bs t m. read_excel env d = Inr data
        \<and> open_read env g = Inr bs \<and> read_text env bs = Inr t
        \<and> written w' = written w @ [(out, m)]
        \<and> root_html m = [css]
        \<and> map_children m =
            [\<lparr>fg_name = py ''map'',
              children = GeoJsonChild \<lparr>geo_data = t\<rparr>
                # map MarkerChild (composed env (iterrows data))\<rparr>])"
proof
  assume "create_iit_map env d g out w = (Inr (), w')"
  from create_iit_map_Inr[OF this] obtain data bs t where
    "read_excel env d = Inr data" "open_read env g = Inr bs" "read_text env bs = Inr t"
    "w' = w\<lparr>stdout := stdout w @ diagnostics env (iterrows data),
            written := written w @
              [(out, \<lparr>map_location = [POther (py ''20.5937''), POther (py ''78.9629'')],
                      zoom_start = 5, tiles = py ''CartoDB positron'',
                      root_html = [css],
                      map_children =
                        [\<lparr>fg_name = py ''map'',
                          children = GeoJsonChild \<lparr>geo_data = t\<rparr>
                            # map MarkerChild (composed env (iterrows data))\<rparr>]\<rparr>)]\<rparr>"
    by blast
  then show "\<exists>data bs t m. read_excel env d = Inr data
        \<and> open_read env g = Inr bs \<and> read_text env bs = Inr t
        \<and> written w' = written w @ [(out, m)]
        \<and> root_html m = [css]
        \<and> map_children m =
            [\<lparr>fg_name = py ''map'',
              children = GeoJsonChild \<lparr>geo_data = t\<rparr>
                # map MarkerChild (composed env (iterrows data))\<rparr>]"
    by (intro exI[of _ data] exI[of _ bs] exI[of _ t]) simp
qed

theorem map_document_structure_witness:
  "create_iit_map sample_env data_file geojson_file output_file w0 = (Inr (), sample_result)
   \<and> read_excel sample_env data_file = Inr sample_data
   \<and> open_read sample_env geojson_file = Inr sample_boundary_file
   \<and> read_text sample_env sample_boundary_file = Inr sample_boundary
   \<and> written sample_result = written w0 @ [(output_file, sample_map)]
   \<and> root_html sample_map = [css]
   \<and> map_children sample_map =
       [\<lparr>fg_name = py ''map'',
         children = GeoJsonChild \<lparr>geo_data = sample_boundary\<rparr>
           # map MarkerChild (composed sample_env (iterrows sample_data))\<rparr>]"
proof -
  have r: "read_excel sample_env data_file = Inr sample_data"
    and o: "open_read sample_env geojson_file = Inr sample_boundary_file"
    by (simp_all add: sample_env_def)
  have wr: "written sample_result = written w0 @ [(output_file, sample_map)]"
    by (simp add: sample_result_def w0_def)
  from map_document_structure[of sample_env data_file geojson_file output_file w0 sample_result]
    sample_run
  obtain data bs t m where
    "read_excel sample_env data_file = Inr data" "open_read sample_env geojson_file = Inr bs"
    "read_text sample_env bs = Inr t" "written sample_result = written w0 @ [(output_file, m)]"
    "root_html m = [css]"
    "map_children m =
       [\<lparr>fg_name = py ''map'',
         children = GeoJsonChild \<lparr>geo_data = t\<rparr>
           # map MarkerChild (composed sample_env (iterrows data))\<rparr>]"
    by blast
  with r o wr sample_read_text have
    "root_html sample_map = [css]"
    "map_children sample_map =
       [\<lparr>fg_name = py ''map'',
         children = GeoJsonChild \<lparr>geo_data = sample_boundary\<rparr>
           # map MarkerChild (composed sample_env (iterrows sample_data))\<rparr>]"
    by simp_all
  with r o wr sample_read_text sample_run show ?thesis by simp
qed

end
